theory Spec2Isabelle
  imports Main
begin

section \<open>Python values, errors and dictionaries\<close>

text \<open>
  The module \<^verbatim>\<open>couchdbkit/ext/django/schema.py\<close> is Python 2 glue between a document
  library and a web framework. Values that flow through it unchanged (labels, verbose
  names, database handles) are modelled by \<open>pyval\<close>; \<open>PObj n\<close> is a reference to an
  opaque object such as a database handle or a lazily translated string.
\<close>

datatype pyval = PNone | PBool bool | PInt int | PStr string | PList "pyval list" | PObj nat

text \<open>
  Every \<^verbatim>\<open>raise\<close> of the module is a value. \<open>TypeError\<close> carries its message,
  \<open>FieldDoesNotExist\<close> the object name, the field name and whether the message is the
  one for an app registry that is not ready. \<open>Raised n\<close> is an exception of a callee
  outside this file.
\<close>

datatype py_error =
    TypeError string
  | AttributeError string
  | KeyError string
  | IndexError
  | FieldDoesNotExist pyval string bool
  | Raised nat

text \<open>
  A Python dict whose iteration order matters (\<^verbatim>\<open>','.join(meta_attrs.keys())\<close>) is an
  association list with one entry per key, in iteration order.
\<close>

type_synonym 'v pydict = "(string \<times> 'v) list"

definition dict_in :: "string \<Rightarrow> 'v pydict \<Rightarrow> bool" where
  "dict_in k d = (map_of d k \<noteq> None)"

definition dict_del :: "string \<Rightarrow> 'v pydict \<Rightarrow> 'v pydict" where
  "dict_del k d = filter (\<lambda>kv. fst kv \<noteq> k) d"

definition dict_pop :: "string \<Rightarrow> 'v \<Rightarrow> 'v pydict \<Rightarrow> 'v \<times> 'v pydict" where
  "dict_pop k dflt d = (case map_of d k of None \<Rightarrow> (dflt, d) | Some v \<Rightarrow> (v, dict_del k d))"

definition dict_keys :: "'v pydict \<Rightarrow> string list" where
  "dict_keys d = map fst d"

text \<open>\<^verbatim>\<open>name.startswith('_')\<close>\<close>

definition startswith_underscore :: "string \<Rightarrow> bool" where
  "startswith_underscore s = (case s of [] \<Rightarrow> False | c # _ \<Rightarrow> c = CHR ''_'')"

text \<open>\<^verbatim>\<open>','.join(keys)\<close>\<close>

fun join_comma :: "string list \<Rightarrow> string" where
  "join_comma [] = []"
| "join_comma [k] = k"
| "join_comma (k # ks) = k @ '','' @ join_comma ks"

text \<open>\<^verbatim>\<open>str.lower()\<close> on a Python 2 byte string: the ASCII capitals move down.\<close>

definition lower_char :: "char \<Rightarrow> char" where
  "lower_char c =
     (let n = (of_char c :: nat) in if 65 \<le> n \<and> n \<le> 90 then char_of (n + 32) else c)"

definition lower :: "string \<Rightarrow> string" where
  "lower s = map lower_char s"

definition endswith :: "string \<Rightarrow> string \<Rightarrow> bool" where
  "endswith s suf = (length suf \<le> length s \<and> drop (length s - length suf) s = suf)"

text \<open>
  \<^verbatim>\<open>re.sub('\.models$', '', module)\<close>: the suffix \<^verbatim>\<open>.models\<close> is removed where it
  ends the string, or stands before one final newline (where \<^verbatim>\<open>$\<close> matches too).
\<close>

definition re_sub_models :: "string \<Rightarrow> string" where
  "re_sub_models s =
     (if endswith s ''.models'' then take (length s - 7) s
      else if endswith s (''.models'' @ [CHR 0x0A]) then take (length s - 8) s @ [CHR 0x0A]
      else s)"

section \<open>The objects of the module\<close>

text \<open>
  \<^verbatim>\<open>class Meta\<close> of a document class: its own \<^verbatim>\<open>__dict__\<close>, and the attributes
  that \<^verbatim>\<open>hasattr\<close> and \<^verbatim>\<open>getattr\<close> find on its bases. A class object is true in a
  Python condition.
\<close>

record meta_cls =
  meta_dict :: "pyval pydict"
  meta_inherited :: "pyval pydict"

definition meta_hasattr :: "meta_cls \<Rightarrow> string \<Rightarrow> bool" where
  "meta_hasattr m k = (dict_in k (meta_dict m) \<or> dict_in k (meta_inherited m))"

definition meta_getattr :: "meta_cls \<Rightarrow> string \<Rightarrow> pyval option" where
  "meta_getattr m k =
     (case map_of (meta_dict m) k of Some v \<Rightarrow> Some v | None \<Rightarrow> map_of (meta_inherited m) k)"

text \<open>
  A field of the framework, as \<^verbatim>\<open>get_field\<close> reads it: \<^verbatim>\<open>name\<close>, \<^verbatim>\<open>attname\<close>
  (reading it may raise AttributeError: \<open>None\<close>) and \<^verbatim>\<open>many_to_many\<close>. \<open>f_id\<close> is the
  identity of the field object.
\<close>

record field =
  f_id :: nat
  f_name :: string
  f_attname :: "string option"
  f_many_to_many :: bool

text \<open>
  What the module imports from the framework and from the interpreter, taken as
  parameters: \<^verbatim>\<open>get_verbose_name\<close>, \<^verbatim>\<open>string_concat\<close>, the settings
  \<^verbatim>\<open>INSTALLED_APPS\<close> and \<^verbatim>\<open>DEFAULT_TABLESPACE\<close>, \<^verbatim>\<open>apps.models_ready\<close>, the
  instance attributes that the constructor inherited from the framework's \<^verbatim>\<open>Field\<close>
  binds on a new \<^verbatim>\<open>PKField\<close>, and the builtin \<^verbatim>\<open>str\<close>.
\<close>

record django =
  get_verbose_name :: "string \<Rightarrow> pyval"
  string_concat :: "pyval \<Rightarrow> pyval \<Rightarrow> pyval"
  INSTALLED_APPS :: "string list"
  DEFAULT_TABLESPACE :: pyval
  models_ready :: bool
  Field_init :: "pyval pydict"
  str :: "pyval \<Rightarrow> py_error + string"

subsection \<open>PKField\<close>

text \<open>
  \<^verbatim>\<open>class PKField(Field)\<close> has the class attributes \<^verbatim>\<open>name = 'pk'\<close> and
  \<^verbatim>\<open>attname = 'pk'\<close>. An instance holds what the inherited constructor bound; reading
  an attribute looks at the instance first, then at the class.
\<close>

record pkfield =
  instance_dict :: "pyval pydict"

definition PKField_class_dict :: "pyval pydict" where
  "PKField_class_dict = [(''name'', PStr ''pk''), (''attname'', PStr ''pk'')]"

definition PKField :: "django \<Rightarrow> pkfield" where
  "PKField dj = \<lparr>instance_dict = Field_init dj\<rparr>"

definition pkfield_getattr :: "pkfield \<Rightarrow> string \<Rightarrow> pyval option" where
  "pkfield_getattr f k =
     (case map_of (instance_dict f) k of
        Some v \<Rightarrow> Some v
      | None \<Rightarrow> map_of PKField_class_dict k)"

definition to_python :: "django \<Rightarrow> pkfield \<Rightarrow> pyval \<Rightarrow> py_error + string" where
  "to_python dj self v = str dj v"

text \<open>\<^verbatim>\<open>value_to_string(self, obj)\<close>: \<open>obj\<close> is given by its attribute lookup.\<close>

definition value_to_string ::
  "django \<Rightarrow> pkfield \<Rightarrow> (string \<rightharpoonup> pyval) \<Rightarrow> py_error + string" where
  "value_to_string dj self obj =
     (case obj ''pk'' of None \<Rightarrow> Inl (AttributeError ''pk'') | Some v \<Rightarrow> str dj v)"

subsection \<open>Options\<close>

text \<open>
  The attributes of an \<^verbatim>\<open>Options\<close> instance. \<open>meta\<close> is \<open>None\<close> once
  \<^verbatim>\<open>del self.meta\<close> has run, \<open>Some None\<close> for the Python \<^verbatim>\<open>None\<close>; \<open>pk\<close>,
  \<open>installed\<close>, \<open>model\<close> and \<open>ordering\<close> are \<open>None\<close> while the instance does not
  have the attribute; \<open>model\<close> and \<open>concrete_model\<close> refer to a class by its
  reference. The two \<^verbatim>\<open>cached_property\<close> slots hold the map once it is computed.
  \<open>module_name'\<close> is the attribute \<^verbatim>\<open>module_name\<close>. The attributes
  \<^verbatim>\<open>_get_fields_cache\<close>, \<^verbatim>\<open>parents\<close> and \<^verbatim>\<open>apps\<close>, set once in
  \<^verbatim>\<open>__init__\<close> and never written again, are left out: the module reads only
  \<^verbatim>\<open>apps.models_ready\<close>, which is a field of \<open>django\<close>.
\<close>

record options =
  module_name' :: pyval
  verbose_name :: pyval
  verbose_name_plural :: pyval
  object_name :: pyval
  app_label :: pyval
  meta :: "meta_cls option option"
  admin :: pyval
  abstract :: bool
  local_fields :: "field list"
  local_many_to_many :: "field list"
  virtual_fields :: "field list"
  concrete_model :: "nat option"
  managed :: bool
  db_table :: pyval
  db_tablespace :: pyval
  pk :: "pkfield option"
  installed :: "bool option"
  model :: "nat option"
  ordering :: "pyval option"
  forward_fields_map_cache :: "(string \<rightharpoonup> field) option"
  fields_map_cache :: "(string \<rightharpoonup> field) option"

definition DEFAULT_NAMES :: "string list" where
  "DEFAULT_NAMES = [''verbose_name'', ''db_table'', ''ordering'', ''app_label'']"

text \<open>\<^verbatim>\<open>Options.__init__(self, meta, app_label=None)\<close>\<close>

definition Options :: "django \<Rightarrow> meta_cls option \<Rightarrow> pyval \<Rightarrow> options" where
  "Options dj mt lbl =
     \<lparr>module_name' = PNone, verbose_name = PNone, verbose_name_plural = PNone,
      object_name = PNone, app_label = lbl, meta = Some mt, admin = PNone,
      abstract = False, local_fields = [], local_many_to_many = [], virtual_fields = [],
      concrete_model = None, managed = True, db_table = PStr '''',
      db_tablespace = DEFAULT_TABLESPACE dj, pk = None, installed = None, model = None,
      ordering = None, forward_fields_map_cache = None, fields_map_cache = None\<rparr>"

text \<open>
  \<^verbatim>\<open>setattr(self, attr_name, value)\<close> and the matching read, for the names of
  \<open>DEFAULT_NAMES\<close> (the only names the module passes).
\<close>

definition options_setattr :: "string \<Rightarrow> pyval \<Rightarrow> options \<Rightarrow> options" where
  "options_setattr k v self =
     (if k = ''verbose_name'' then self\<lparr>verbose_name := v\<rparr>
      else if k = ''db_table'' then self\<lparr>db_table := v\<rparr>
      else if k = ''ordering'' then self\<lparr>ordering := Some v\<rparr>
      else if k = ''app_label'' then self\<lparr>app_label := v\<rparr>
      else self)"

definition options_getattr :: "options \<Rightarrow> string \<Rightarrow> pyval option" where
  "options_getattr self k =
     (if k = ''verbose_name'' then Some (verbose_name self)
      else if k = ''db_table'' then Some (db_table self)
      else if k = ''ordering'' then ordering self
      else if k = ''app_label'' then Some (app_label self)
      else None)"

text \<open>
  A class object, by the attributes this module reads or writes: \<^verbatim>\<open>__name__\<close>,
  \<^verbatim>\<open>__module__\<close>, \<^verbatim>\<open>__bases__\<close>, the classes that follow it in \<^verbatim>\<open>__mro__\<close>,
  whether it is an instance of \<^verbatim>\<open>DocumentMeta\<close>, and its own bindings of
  \<^verbatim>\<open>Meta\<close> (a class or \<^verbatim>\<open>None\<close>), \<^verbatim>\<open>_meta\<close> and \<^verbatim>\<open>_db\<close> (\<open>None\<close>: the
  class's own \<^verbatim>\<open>__dict__\<close> has no such key). Classes are referred to by reference
  (a number): they are mutable and shared.
\<close>

record pyclass =
  cls_name :: string
  cls_module :: string
  cls_bases :: "nat list"
  cls_mro :: "nat list"
  cls_DocumentMeta :: bool
  cls_Meta :: "meta_cls option option"
  cls_meta :: "options option"
  cls_db :: "pyval option"

text \<open>
  The first loop of \<^verbatim>\<open>contribute_to_class\<close>: over the keys of the original
  \<^verbatim>\<open>__dict__\<close>, deleting the private ones from the copy.
\<close>

definition drop_private :: "pyval pydict \<Rightarrow> pyval pydict" where
  "drop_private d =
     fold (\<lambda>k meta_attrs. if startswith_underscore k then dict_del k meta_attrs else meta_attrs)
       (dict_keys d) d"

text \<open>The body of the loop over \<open>DEFAULT_NAMES\<close>, on the pair of \<^verbatim>\<open>self\<close> and \<^verbatim>\<open>meta_attrs\<close>.\<close>

definition apply_default ::
  "meta_cls \<Rightarrow> string \<Rightarrow> options \<times> pyval pydict \<Rightarrow> options \<times> pyval pydict" where
  "apply_default m attr_name st =
     (case st of (self, meta_attrs) \<Rightarrow>
        (case map_of meta_attrs attr_name of
           Some v \<Rightarrow> (options_setattr attr_name v self, dict_del attr_name meta_attrs)
         | None \<Rightarrow>
             if meta_hasattr m attr_name then
               (case meta_getattr m attr_name of
                  Some v \<Rightarrow> (options_setattr attr_name v self, meta_attrs)
                | None \<Rightarrow> (self, meta_attrs))
             else (self, meta_attrs)))"

text \<open>The text of the TypeError, before the names of the leftover attributes.\<close>

definition invalid_attributes_msg :: string where
  "invalid_attributes_msg =
     [CHR 0x27] @ ''class Meta'' @ [CHR 0x27] @ '' got invalid attribute(s): ''"

text \<open>
  \<^verbatim>\<open>Options.contribute_to_class(self, cls, name)\<close>. \<open>ref\<close> is the reference of
  \<open>cls\<close>. The result is the exception raised (if any) and the two objects the call
  mutates, as they are when it returns or raises.
\<close>

definition contribute_to_class ::
  "django \<Rightarrow> options \<Rightarrow> nat \<Rightarrow> pyclass \<Rightarrow> string \<Rightarrow> py_error option \<times> options \<times> pyclass" where
  "contribute_to_class dj self ref cls nm =
     (let self1 = self\<lparr>pk := Some (PKField dj)\<rparr>;
          self2 = self1\<lparr>installed :=
                    Some (re_sub_models (cls_module cls) \<in> set (INSTALLED_APPS dj))\<rparr>;
          self3 = self2\<lparr>object_name := PStr (cls_name cls)\<rparr>;
          self4 = self3\<lparr>module_name' := PStr (lower (cls_name cls))\<rparr>;
          self5 = self4\<lparr>verbose_name := get_verbose_name dj (cls_name cls)\<rparr>;
          self6 = self5\<lparr>model := Some ref, concrete_model := Some ref\<rparr>
      in case meta self6 of
           None \<Rightarrow> (Some (AttributeError ''meta''), self6, cls\<lparr>cls_meta := Some self6\<rparr>)
         | Some None \<Rightarrow>
             (let self7 = self6\<lparr>verbose_name_plural :=
                            string_concat dj (verbose_name self6) (PStr ''s'')\<rparr>;
                  self8 = self7\<lparr>meta := None\<rparr>
              in (None, self8, cls\<lparr>cls_meta := Some self8\<rparr>))
         | Some (Some m) \<Rightarrow>
             (let meta_attrs = drop_private (meta_dict m);
                  st = fold (apply_default m) DEFAULT_NAMES (self6, meta_attrs);
                  self7 = fst st;
                  popped = dict_pop ''verbose_name_plural''
                             (string_concat dj (verbose_name self7) (PStr ''s'')) (snd st);
                  self8 = self7\<lparr>verbose_name_plural := fst popped\<rparr>;
                  meta_attrs2 = snd popped
              in if meta_attrs2 \<noteq> [] then
                   (Some (TypeError (invalid_attributes_msg @ join_comma (dict_keys meta_attrs2))),
                    self8, cls\<lparr>cls_meta := Some self8\<rparr>)
                 else
                   (let self9 = self8\<lparr>meta := None\<rparr>
                    in (None, self9, cls\<lparr>cls_meta := Some self9\<rparr>))))"






section \<open>The re-exported names\<close>

text \<open>
  The assignments at the end of the module, \<^verbatim>\<open>DocumentSchema = schema.DocumentSchema\<close>
  to \<^verbatim>\<open>convert_property = schema.convert_property\<close>, in source order. The module
  \<^verbatim>\<open>couchdbkit.schema\<close> is given by its attribute lookup, objects by their identity;
  reading a name that the module does not have raises AttributeError.
\<close>

definition REEXPORTED :: "string list" where
  "REEXPORTED =
     [''DocumentSchema'',
      ''Property'', ''StringProperty'', ''IntegerProperty'', ''DecimalProperty'',
      ''BooleanProperty'', ''FloatProperty'', ''DateTimeProperty'', ''DateProperty'',
      ''TimeProperty'', ''SchemaProperty'', ''SchemaListProperty'', ''ListProperty'',
      ''DictProperty'', ''StringDictProperty'', ''StringListProperty'', ''SchemaDictProperty'',
      ''SetProperty'',
      ''dict_to_json'', ''list_to_json'', ''value_to_json'', ''value_to_python'',
      ''dict_to_python'', ''list_to_python'', ''convert_property'']"

fun reexport :: "(string \<rightharpoonup> 'o) \<Rightarrow> string list \<Rightarrow> (string \<rightharpoonup> 'o) \<Rightarrow> py_error + (string \<rightharpoonup> 'o)" where
  "reexport schema [] globals = Inr globals"
| "reexport schema (n # ns) globals =
     (case schema n of
        None \<Rightarrow> Inl (AttributeError n)
      | Some v \<Rightarrow> reexport schema ns (globals(n \<mapsto> v)))"

definition module_reexports :: "(string \<rightharpoonup> 'o) \<Rightarrow> (string \<rightharpoonup> 'o) \<Rightarrow> py_error + (string \<rightharpoonup> 'o)" where
  "module_reexports schema globals = reexport schema REEXPORTED globals"

section \<open>Classes, the metaclass and the registry\<close>

text \<open>\<^verbatim>\<open>s.split('.')\<close>\<close>

fun split_dot :: "string \<Rightarrow> string list" where
  "split_dot [] = [[]]"
| "split_dot (x # xs) =
     (if x = CHR ''.'' then [] # split_dot xs
      else (case split_dot xs of [] \<Rightarrow> [[x]] | p # ps \<Rightarrow> (x # p) # ps))"

text \<open>
  What a call from this module to the rest of the package leaves behind: the calls of
  \<^verbatim>\<open>register_schema\<close>, \<^verbatim>\<open>get_schema\<close> and \<^verbatim>\<open>get_db\<close>, with their arguments.
\<close>

datatype event = RegisterSchema pyval nat | GetSchema pyval string | GetDb pyval

text \<open>
  The state the module works on: the class objects by reference, the next free
  reference, the state of the registry kept by \<^verbatim>\<open>couchdbkit.ext.django.loading\<close>, the
  calls made to it so far, and \<^verbatim>\<open>sys.modules\<close> (each module by its \<^verbatim>\<open>__name__\<close>).
\<close>

record 'r world =
  classes :: "nat \<rightharpoonup> pyclass"
  next_ref :: nat
  registry :: 'r
  events :: "event list"
  sys_modules :: "string \<rightharpoonup> string"

text \<open>
  The class body handed to the metaclass, by the entries this module reads
  (\<^verbatim>\<open>Meta\<close>: absent, \<^verbatim>\<open>None\<close> or a class) or that become attributes the module
  reads later (\<^verbatim>\<open>__module__\<close>, \<^verbatim>\<open>_db\<close>); \<open>attrs_rest\<close> holds the other entries.
\<close>

record attrs =
  attrs_Meta :: "meta_cls option option"
  attrs_module :: string
  attrs_db :: "pyval option"
  attrs_rest :: "pyval pydict"

text \<open>
  The rest of the package, taken as parameters: \<^verbatim>\<open>schema.SchemaProperties.__new__\<close>
  (the parent metaclass, which builds the class object or raises) and the functions
  \<^verbatim>\<open>register_schema\<close>, \<^verbatim>\<open>get_schema\<close> and \<^verbatim>\<open>get_db\<close> of
  \<^verbatim>\<open>couchdbkit.ext.django.loading\<close>, over a registry state of any type.
  \<^verbatim>\<open>get_schema\<close> returns a class reference or \<^verbatim>\<open>None\<close>.
\<close>

record 'r couchdbkit =
  super_new :: "string \<Rightarrow> nat list \<Rightarrow> attrs \<Rightarrow> (nat \<rightharpoonup> pyclass) \<Rightarrow> py_error + pyclass"
  register_schema :: "pyval \<Rightarrow> nat \<Rightarrow> (nat \<rightharpoonup> pyclass) \<Rightarrow> 'r \<Rightarrow> py_error + 'r"
  get_schema :: "pyval \<Rightarrow> string \<Rightarrow> 'r \<Rightarrow> py_error + nat option"
  get_db :: "pyval \<Rightarrow> 'r \<Rightarrow> py_error + pyval"

text \<open>
  Attribute lookup on a class: its own binding, then the classes of its \<^verbatim>\<open>__mro__\<close>
  in order. \<open>sel\<close> selects the attribute.
\<close>

fun lookup_mro :: "(pyclass \<Rightarrow> 'a option) \<Rightarrow> (nat \<rightharpoonup> pyclass) \<Rightarrow> nat list \<Rightarrow> 'a option" where
  "lookup_mro sel cs [] = None"
| "lookup_mro sel cs (r # rs) =
     (case cs r of
        None \<Rightarrow> lookup_mro sel cs rs
      | Some c \<Rightarrow> (case sel c of Some v \<Rightarrow> Some v | None \<Rightarrow> lookup_mro sel cs rs))"

definition class_getattr :: "(pyclass \<Rightarrow> 'a option) \<Rightarrow> (nat \<rightharpoonup> pyclass) \<Rightarrow> nat \<Rightarrow> 'a option" where
  "class_getattr sel cs ref =
     (case cs ref of
        None \<Rightarrow> None
      | Some c \<Rightarrow> (case sel c of Some v \<Rightarrow> Some v | None \<Rightarrow> lookup_mro sel cs (cls_mro c)))"

text \<open>\<^verbatim>\<open>isinstance(b, DocumentMeta)\<close>\<close>

definition isinstance_DocumentMeta :: "(nat \<rightharpoonup> pyclass) \<Rightarrow> nat \<Rightarrow> bool" where
  "isinstance_DocumentMeta cs b = (case cs b of None \<Rightarrow> False | Some c \<Rightarrow> cls_DocumentMeta c)"

text \<open>
  \<^verbatim>\<open>DocumentMeta.add_to_class(cls, name, value)\<close>: an \<^verbatim>\<open>Options\<close> has
  \<^verbatim>\<open>contribute_to_class\<close>, a plain value is set as the attribute (\<^verbatim>\<open>_db\<close> is the
  plain attribute the model keeps).
\<close>

datatype class_value = OptionsValue options | PlainValue pyval

definition add_to_class ::
  "django \<Rightarrow> nat \<Rightarrow> pyclass \<Rightarrow> string \<Rightarrow> class_value \<Rightarrow> py_error option \<times> pyclass" where
  "add_to_class dj ref cls nm val =
     (case val of
        OptionsValue opts \<Rightarrow>
          (case contribute_to_class dj opts ref cls nm of (err, opts', cls') \<Rightarrow> (err, cls'))
      | PlainValue v \<Rightarrow> (None, if nm = ''_db'' then cls\<lparr>cls_db := Some v\<rparr> else cls))"

text \<open>
  Lines 240 to 244 of \<^verbatim>\<open>DocumentMeta.__new__\<close>: \<^verbatim>\<open>attrs.pop('Meta', None)\<close>, and
  \<^verbatim>\<open>getattr(new_class, 'Meta', None)\<close> when that is absent or \<^verbatim>\<open>None\<close>.
\<close>

definition select_meta :: "attrs \<Rightarrow> (nat \<rightharpoonup> pyclass) \<Rightarrow> nat \<Rightarrow> meta_cls option" where
  "select_meta att cs new_class =
     (let attr_meta = (case attrs_Meta att of None \<Rightarrow> None | Some v \<Rightarrow> v)
      in if attr_meta = None then
           (case class_getattr cls_Meta cs new_class of None \<Rightarrow> None | Some v \<Rightarrow> v)
         else attr_meta)"

text \<open>
  Lines 246 to 250 of \<^verbatim>\<open>DocumentMeta.__new__\<close>: \<^verbatim>\<open>getattr(meta, 'app_label', None)\<close>
  and the label taken from it or from the name of the defining module.
\<close>

definition getattr_app_label :: "meta_cls option \<Rightarrow> pyval" where
  "getattr_app_label mt =
     (case mt of
        None \<Rightarrow> PNone
      | Some m \<Rightarrow> (case meta_getattr m ''app_label'' of None \<Rightarrow> PNone | Some v \<Rightarrow> v))"

definition resolve_app_label ::
  "(string \<rightharpoonup> string) \<Rightarrow> meta_cls option \<Rightarrow> string \<Rightarrow> py_error + pyval" where
  "resolve_app_label mods mt cmodule =
     (if getattr_app_label mt = PNone then
        (case mods cmodule of
           None \<Rightarrow> Inl (KeyError cmodule)
         | Some module_name \<Rightarrow>
             (let parts = split_dot module_name
              in if length parts < 2 then Inl IndexError
                 else Inr (PStr (parts ! (length parts - 2)))))
      else Inr (getattr_app_label mt))"

text \<open>
  \<^verbatim>\<open>DocumentMeta.__new__(cls, name, bases, attrs)\<close>. The result is the exception, or
  the value returned (a class reference or \<^verbatim>\<open>None\<close>) with the new state.
\<close>

definition DocumentMeta_new ::
  "django \<Rightarrow> 'r couchdbkit \<Rightarrow> string \<Rightarrow> nat list \<Rightarrow> attrs \<Rightarrow> 'r world \<Rightarrow>
   py_error + (nat option \<times> 'r world)" where
  "DocumentMeta_new dj lib nm bases att w =
     (let parents = filter (isinstance_DocumentMeta (classes w)) bases
      in if parents = [] then
           (case super_new lib nm bases att (classes w) of
              Inl e \<Rightarrow> Inl e
            | Inr c \<Rightarrow>
                Inr (Some (next_ref w),
                     w\<lparr>classes := (classes w)(next_ref w \<mapsto> c), next_ref := Suc (next_ref w)\<rparr>))
         else
           (case super_new lib nm bases att (classes w) of
              Inl e \<Rightarrow> Inl e
            | Inr c \<Rightarrow>
                (let new_class = next_ref w;
                     w1 = w\<lparr>classes := (classes w)(new_class \<mapsto> c), next_ref := Suc new_class\<rparr>;
                     mt = select_meta att (classes w1) new_class
                 in case resolve_app_label (sys_modules w1) mt (cls_module c) of
                      Inl e \<Rightarrow> Inl e
                    | Inr lbl \<Rightarrow>
                        (case add_to_class dj new_class c ''_meta'' (OptionsValue (Options dj mt lbl)) of
                           (Some e, c') \<Rightarrow> Inl e
                         | (None, c') \<Rightarrow>
                             (let w2 = w1\<lparr>classes := (classes w1)(new_class \<mapsto> c')\<rparr>
                              in case register_schema lib lbl new_class (classes w2) (registry w2) of
                                   Inl e \<Rightarrow> Inl e
                                 | Inr reg \<Rightarrow>
                                     (let w3 = w2\<lparr>registry := reg,
                                                 events := events w2 @ [RegisterSchema lbl new_class]\<rparr>;
                                          w4 = w3\<lparr>events := events w3 @ [GetSchema lbl nm]\<rparr>
                                      in case get_schema lib lbl nm (registry w3) of
                                           Inl e \<Rightarrow> Inl e
                                         | Inr res \<Rightarrow> Inr (res, w4)))))))"

text \<open>
  \<^verbatim>\<open>Document.get_db(cls)\<close>: the result or the exception, and the new state.
\<close>

definition Document_get_db ::
  "'r couchdbkit \<Rightarrow> nat \<Rightarrow> 'r world \<Rightarrow> (py_error + pyval) \<times> 'r world" where
  "Document_get_db lib cls w =
     (let db = (case class_getattr cls_db (classes w) cls of None \<Rightarrow> PNone | Some v \<Rightarrow> v)
      in if db = PNone then
           (case class_getattr cls_meta (classes w) cls of
              None \<Rightarrow> (Inl (AttributeError ''_meta''), w)
            | Some opts \<Rightarrow>
                (let lbl = app_label opts;
                     w1 = w\<lparr>events := events w @ [GetDb lbl]\<rparr>
                 in case get_db lib lbl (registry w) of
                      Inl e \<Rightarrow> (Inl e, w1)
                    | Inr db' \<Rightarrow>
                        (case classes w1 cls of
                           None \<Rightarrow> (Inr db', w1)
                         | Some c \<Rightarrow>
                             (Inr db', w1\<lparr>classes := (classes w1)(cls \<mapsto> c\<lparr>cls_db := Some db'\<rparr>)\<rparr>))))
         else (Inr db, w))"

text \<open>
  The class statement of lines 265 to 279, \<^verbatim>\<open>class Document(schema.Document)\<close> with
  \<^verbatim>\<open>__metaclass__ = DocumentMeta\<close> in its body: under Python 2 the metaclass named
  in the body is called with the name, the bases and the body. \<open>schema_Document\<close> is
  the reference of \<^verbatim>\<open>schema.Document\<close>; the body has no \<^verbatim>\<open>Meta\<close> and no \<^verbatim>\<open>_db\<close>.
\<close>

definition Document_attrs :: attrs where
  "Document_attrs =
     \<lparr>attrs_Meta = None, attrs_module = ''couchdbkit.ext.django.schema'', attrs_db = None,
      attrs_rest = [(''__metaclass__'', PObj 0),
                    (''__doc__'', PStr '' Document object for django extension ''),
                    (''get_id'', PObj 1), (''get_rev'', PObj 2), (''get_db'', PObj 3)]\<rparr>"

definition Document ::
  "django \<Rightarrow> 'r couchdbkit \<Rightarrow> nat \<Rightarrow> 'r world \<Rightarrow> py_error + (nat option \<times> 'r world)" where
  "Document dj lib schema_Document w =
     DocumentMeta_new dj lib ''Document'' [schema_Document] Document_attrs w"

section \<open>Concrete inputs\<close>

text \<open>
  A framework environment and a list of fields on which the definitions are evaluated.
\<close>

definition example_django :: django where
  "example_django =
     \<lparr>get_verbose_name = (\<lambda>s. PStr (lower s)),
      string_concat = (\<lambda>a b. PList [a, b]),
      INSTALLED_APPS = [''shop''],
      DEFAULT_TABLESPACE = PStr '''',
      models_ready = True,
      Field_init = [],
      str = (\<lambda>v. case v of PStr s \<Rightarrow> Inr s | PNone \<Rightarrow> Inr ''None'' | _ \<Rightarrow> Inl (Raised 0))\<rparr>"

text \<open>
  The same environment with the constructor of the framework's \<^verbatim>\<open>Field\<close>, which binds
  its arguments on the instance, among them \<^verbatim>\<open>self.name = name\<close>,
  \<^verbatim>\<open>self.verbose_name = verbose_name\<close> and \<^verbatim>\<open>self.primary_key = primary_key\<close>, with
  the defaults \<^verbatim>\<open>None\<close>, \<^verbatim>\<open>None\<close> and \<^verbatim>\<open>False\<close> of a call without arguments.
\<close>

definition example_django_Field :: django where
  "example_django_Field =
     example_django
       \<lparr>Field_init := [(''name'', PNone), (''verbose_name'', PNone), (''primary_key'', PBool False)]\<rparr>"


definition example_class :: pyclass where
  "example_class =
     \<lparr>cls_name = ''Greeting'', cls_module = ''shop.models'', cls_bases = [0], cls_mro = [0],
      cls_DocumentMeta = True, cls_Meta = None, cls_meta = None, cls_db = None\<rparr>"

definition example_Meta :: meta_cls where
  "example_Meta =
     \<lparr>meta_dict = [(''__module__'', PStr ''shop.models''), (''verbose_name'', PStr ''salutation''),
                   (''colour'', PInt 1)],
      meta_inherited = [(''app_label'', PStr ''shop'')]\<rparr>"


definition example_Meta_plural :: meta_cls where
  "example_Meta_plural =
     \<lparr>meta_dict = [(''__module__'', PStr ''shop.models''),
                   (''verbose_name_plural'', PStr ''salutations'')],
      meta_inherited = []\<rparr>"

definition example_Meta_private :: meta_cls where
  "example_Meta_private =
     \<lparr>meta_dict = [(''__module__'', PStr ''shop.models''), (''__doc__'', PNone)],
      meta_inherited = []\<rparr>"

definition example_schema :: "string \<rightharpoonup> nat" where
  "example_schema n = (if n \<in> set REEXPORTED \<or> n = ''Document'' then Some (length n) else None)"

text \<open>
  A package whose parent metaclass builds the class from its arguments as
  \<^verbatim>\<open>type.__new__\<close> does, with a registry that keeps the first class registered under
  an app label and a lower-cased name; and a state that holds \<^verbatim>\<open>schema.Document\<close>
  (reference 0), which is not an instance of \<^verbatim>\<open>DocumentMeta\<close>.
\<close>

definition example_couchdbkit :: "((pyval \<times> string \<times> nat) list) couchdbkit" where
  "example_couchdbkit =
     \<lparr>super_new = (\<lambda>nm bases att cs.
        Inr \<lparr>cls_name = nm, cls_module = attrs_module att, cls_bases = bases,
             cls_mro = concat (map (\<lambda>b. b # (case cs b of None \<Rightarrow> [] | Some c \<Rightarrow> cls_mro c)) bases),
             cls_DocumentMeta = True, cls_Meta = attrs_Meta att, cls_meta = None,
             cls_db = attrs_db att\<rparr>),
      register_schema = (\<lambda>lbl ref cs reg.
        case cs ref of
          None \<Rightarrow> Inr reg
        | Some c \<Rightarrow>
            if map_of (map (\<lambda>e. ((fst e, fst (snd e)), snd (snd e))) reg) (lbl, lower (cls_name c)) \<noteq> None
            then Inr reg
            else Inr (reg @ [(lbl, lower (cls_name c), ref)])),
      get_schema = (\<lambda>lbl nm reg.
        Inr (map_of (map (\<lambda>e. ((fst e, fst (snd e)), snd (snd e))) reg) (lbl, lower nm))),
      get_db = (\<lambda>lbl reg. case lbl of PStr s \<Rightarrow> Inr (PObj (length s)) | _ \<Rightarrow> Inl (KeyError ''''))\<rparr>"

definition example_world :: "((pyval \<times> string \<times> nat) list) world" where
  "example_world =
     \<lparr>classes = [0 \<mapsto> \<lparr>cls_name = ''Document'', cls_module = ''couchdbkit.schema.base'',
                        cls_bases = [], cls_mro = [], cls_DocumentMeta = False,
                        cls_Meta = None, cls_meta = None, cls_db = None\<rparr>],
      next_ref = 1,
      registry = [],
      events = [],
      sys_modules = [''shop.models'' \<mapsto> ''shop.models'',
                     ''couchdbkit.ext.django.schema'' \<mapsto> ''couchdbkit.ext.django.schema'']\<rparr>"

definition example_world_registered :: "((pyval \<times> string \<times> nat) list) world" where
  "example_world_registered =
     example_world
       \<lparr>classes := (classes example_world)
          (1 \<mapsto> example_class\<lparr>cls_meta := Some (Options example_django None (PStr ''shop''))\<rparr>),
        next_ref := 2\<rparr>"

definition example_attrs :: attrs where
  "example_attrs =
     \<lparr>attrs_Meta = Some (Some example_Meta_private), attrs_module = ''shop.models'',
      attrs_db = None, attrs_rest = []\<rparr>"

definition example_world_reloaded :: "((pyval \<times> string \<times> nat) list) world" where
  "example_world_reloaded = example_world_registered\<lparr>registry := [(PStr ''shop'', ''salute'', 1)]\<rparr>"

section \<open>get_field and the cached maps\<close>









section \<open>contribute_to_class\<close>

lemma map_of_filter_fst:
  "map_of (filter (\<lambda>kv. P (fst kv)) d) k = (if P k then map_of d k else None)"
  by (induction d) auto

lemma filter_no_key:
  "map_of d k = None \<Longrightarrow> filter (\<lambda>kv. fst kv \<noteq> k) d = d"
  by (induction d) (auto split: if_splits)

lemma fold_drop_private:
  "fold (\<lambda>k meta_attrs. if startswith_underscore k then dict_del k meta_attrs else meta_attrs) ks d =
   filter (\<lambda>kv. \<not> (fst kv \<in> set ks \<and> startswith_underscore (fst kv))) d"
proof (induction ks arbitrary: d)
  case Nil
  then show ?case by simp
next
  case (Cons k ks)
  show ?case
    by (auto simp: Cons.IH dict_del_def intro!: filter_cong)
qed

lemma drop_private_filter:
  "drop_private d = filter (\<lambda>kv. \<not> startswith_underscore (fst kv)) d"
  unfolding drop_private_def fold_drop_private dict_keys_def
  by (rule filter_cong) auto

lemma meta_getattr_own:
  "map_of attrs k = map_of (meta_dict m) k \<Longrightarrow>
   (case map_of attrs k of
      Some v \<Rightarrow> Some v
    | None \<Rightarrow> if meta_hasattr m k then meta_getattr m k else None) = meta_getattr m k"
  by (auto simp: meta_getattr_def meta_hasattr_def dict_in_def split: option.splits)

lemma apply_default_step:
  assumes "map_of attrs k = map_of (meta_dict m) k"
  shows "apply_default m k (s, attrs) =
     ((case meta_getattr m k of Some v \<Rightarrow> options_setattr k v s | None \<Rightarrow> s),
      filter (\<lambda>kv. fst kv \<noteq> k) attrs)"
  using assms
  by (auto simp: apply_default_def meta_getattr_def meta_hasattr_def dict_in_def dict_del_def
      filter_no_key split: option.splits)

lemma fold_apply_default:
  assumes "distinct ns" and "\<forall>k\<in>set ns. map_of attrs k = map_of (meta_dict m) k"
  shows "fold (apply_default m) ns (s, attrs) =
     (fold (\<lambda>k s. case meta_getattr m k of Some v \<Rightarrow> options_setattr k v s | None \<Rightarrow> s) ns s,
      filter (\<lambda>kv. fst kv \<notin> set ns) attrs)"
  using assms
proof (induction ns arbitrary: s attrs)
  case Nil
  then show ?case by simp
next
  case (Cons k ns)
  have step: "apply_default m k (s, attrs) =
     ((case meta_getattr m k of Some v \<Rightarrow> options_setattr k v s | None \<Rightarrow> s),
      filter (\<lambda>kv. fst kv \<noteq> k) attrs)"
    by (rule apply_default_step) (use Cons.prems in simp)
  have pre: "\<forall>k'\<in>set ns. map_of (filter (\<lambda>kv. fst kv \<noteq> k) attrs) k' = map_of (meta_dict m) k'"
    using Cons.prems by (auto simp: map_of_filter_fst [where P = "\<lambda>x. x \<noteq> k"])
  have d: "distinct ns" using Cons.prems by simp
  show ?case
    by (simp only: fold_simps step Cons.IH [OF d pre]) (auto intro!: filter_cong)
qed

lemma DEFAULT_NAMES_public: "\<forall>k\<in>set DEFAULT_NAMES. \<not> startswith_underscore k"
  by (simp add: DEFAULT_NAMES_def startswith_underscore_def)

lemma fold_apply_default_DEFAULT_NAMES:
  "fold (apply_default m) DEFAULT_NAMES (s, drop_private (meta_dict m)) =
     (fold (\<lambda>k s. case meta_getattr m k of Some v \<Rightarrow> options_setattr k v s | None \<Rightarrow> s)
        DEFAULT_NAMES s,
      filter (\<lambda>kv. \<not> startswith_underscore (fst kv) \<and> fst kv \<notin> set DEFAULT_NAMES) (meta_dict m))"
proof -
  have d: "distinct DEFAULT_NAMES" by (simp add: DEFAULT_NAMES_def)
  have pre: "\<forall>k\<in>set DEFAULT_NAMES.
      map_of (drop_private (meta_dict m)) k = map_of (meta_dict m) k"
    using DEFAULT_NAMES_public
    by (simp add: drop_private_filter map_of_filter_fst [where P = "\<lambda>x. \<not> startswith_underscore x"])
  show ?thesis
    unfolding fold_apply_default [OF d pre] by (simp add: drop_private_filter conj_commute)
qed

lemma contribute_to_class_Meta:
  assumes "meta self = Some (Some m)"
  shows "contribute_to_class dj self ref cls nm =
    (let self6 = self\<lparr>pk := Some (PKField dj),
                   installed := Some (re_sub_models (cls_module cls) \<in> set (INSTALLED_APPS dj)),
                   object_name := PStr (cls_name cls),
                   module_name' := PStr (lower (cls_name cls)),
                   verbose_name := get_verbose_name dj (cls_name cls),
                   model := Some ref, concrete_model := Some ref\<rparr>;
         self7 = fold (\<lambda>k s. case meta_getattr m k of Some v \<Rightarrow> options_setattr k v s | None \<Rightarrow> s)
                   DEFAULT_NAMES self6;
         self8 = self7\<lparr>verbose_name_plural :=
                   (case map_of (meta_dict m) ''verbose_name_plural'' of
                      Some v \<Rightarrow> v
                    | None \<Rightarrow> string_concat dj (verbose_name self7) (PStr ''s''))\<rparr>;
         leftover = filter (\<lambda>kv. \<not> startswith_underscore (fst kv) \<and> fst kv \<notin> set DEFAULT_NAMES \<and>
                       fst kv \<noteq> ''verbose_name_plural'') (meta_dict m)
     in if leftover \<noteq> [] then
          (Some (TypeError (invalid_attributes_msg @ join_comma (map fst leftover))),
           self8, cls\<lparr>cls_meta := Some self8\<rparr>)
        else (None, self8\<lparr>meta := None\<rparr>, cls\<lparr>cls_meta := Some (self8\<lparr>meta := None\<rparr>)\<rparr>))"
proof -
  let ?rest = "filter (\<lambda>kv. \<not> startswith_underscore (fst kv) \<and> fst kv \<notin> set DEFAULT_NAMES)
                 (meta_dict m)"
  have look: "map_of ?rest ''verbose_name_plural'' = map_of (meta_dict m) ''verbose_name_plural''"
    by (subst map_of_filter_fst
        [where P = "\<lambda>x. \<not> startswith_underscore x \<and> x \<notin> set DEFAULT_NAMES"])
      (simp add: startswith_underscore_def DEFAULT_NAMES_def)
  have left: "filter (\<lambda>kv. fst kv \<noteq> ''verbose_name_plural'') ?rest =
      filter (\<lambda>kv. \<not> startswith_underscore (fst kv) \<and> fst kv \<notin> set DEFAULT_NAMES \<and>
                       fst kv \<noteq> ''verbose_name_plural'') (meta_dict m)"
    by (auto intro!: filter_cong)
  have pop: "\<And>dflt. dict_pop ''verbose_name_plural'' dflt ?rest =
      ((case map_of (meta_dict m) ''verbose_name_plural'' of Some v \<Rightarrow> v | None \<Rightarrow> dflt),
       filter (\<lambda>kv. \<not> startswith_underscore (fst kv) \<and> fst kv \<notin> set DEFAULT_NAMES \<and>
                       fst kv \<noteq> ''verbose_name_plural'') (meta_dict m))"
    unfolding dict_pop_def look dict_del_def left [symmetric]
    using filter_no_key [of ?rest "''verbose_name_plural''"] look
    by (simp split: option.splits)
  show ?thesis
    unfolding contribute_to_class_def
    using assms
    by (simp add: Let_def fold_apply_default_DEFAULT_NAMES pop dict_keys_def)
qed

lemma contribute_to_class_None:
  assumes "meta self = Some None"
  shows "contribute_to_class dj self ref cls nm =
    (let self8 = self\<lparr>pk := Some (PKField dj),
                   installed := Some (re_sub_models (cls_module cls) \<in> set (INSTALLED_APPS dj)),
                   object_name := PStr (cls_name cls),
                   module_name' := PStr (lower (cls_name cls)),
                   verbose_name := get_verbose_name dj (cls_name cls),
                   model := Some ref, concrete_model := Some ref,
                   verbose_name_plural :=
                     string_concat dj (get_verbose_name dj (cls_name cls)) (PStr ''s''),
                   meta := None\<rparr>
     in (None, self8, cls\<lparr>cls_meta := Some self8\<rparr>))"
  unfolding contribute_to_class_def using assms by (simp add: Let_def)

lemma contribute_to_class_pk:
  assumes "contribute_to_class dj self ref cls nm = (err, self', cls')"
  shows "cls_meta cls' = Some self' \<and> pk self' = Some (PKField dj)"
proof (cases "meta self")
  case None
  with assms show ?thesis by (auto simp: contribute_to_class_def Let_def)
next
  case (Some mo)
  show ?thesis
  proof (cases mo)
    case None
    with Some assms show ?thesis by (auto simp: contribute_to_class_None Let_def)
  next
    case (Some m)
    have frame: "\<And>ns s. pk (fold (\<lambda>k s. case meta_getattr m k of
                    Some v \<Rightarrow> options_setattr k v s | None \<Rightarrow> s) ns s) = pk s"
      subgoal for ns s
        by (induction ns arbitrary: s) (auto simp: options_setattr_def split: option.splits)
      done
    from Some \<open>meta self = Some mo\<close> have "meta self = Some (Some m)" by simp
    from contribute_to_class_Meta [OF this, of dj ref cls nm] assms show ?thesis
      by (auto simp: Let_def frame split: if_splits)
  qed
qed

lemma options_getattr_setattr:
  "options_getattr (options_setattr k v s) k' =
     (if k = k' \<and> k \<in> set DEFAULT_NAMES then Some v else options_getattr s k')"
  by (auto simp: options_getattr_def options_setattr_def DEFAULT_NAMES_def)

lemma options_getattr_defaults:
  assumes "k \<in> set DEFAULT_NAMES"
  shows "options_getattr
           (fold (\<lambda>k s. case meta_getattr m k of Some v \<Rightarrow> options_setattr k v s | None \<Rightarrow> s)
              DEFAULT_NAMES s) k =
         (case meta_getattr m k of Some v \<Rightarrow> Some v | None \<Rightarrow> options_getattr s k)"
  using assms
  by (auto simp: DEFAULT_NAMES_def options_getattr_def options_setattr_def split: option.splits)

lemma public_lookup:
  assumes "filter (\<lambda>kv. \<not> startswith_underscore (fst kv)) d =
           filter (\<lambda>kv. \<not> startswith_underscore (fst kv)) d'"
    and "\<not> startswith_underscore k"
  shows "map_of d k = map_of d' k"
proof -
  have "map_of (filter (\<lambda>kv. \<not> startswith_underscore (fst kv)) d) k = map_of d k"
    using assms(2) by (subst map_of_filter_fst [where P = "\<lambda>x. \<not> startswith_underscore x"]) simp
  moreover have "map_of (filter (\<lambda>kv. \<not> startswith_underscore (fst kv)) d') k = map_of d' k"
    using assms(2) by (subst map_of_filter_fst [where P = "\<lambda>x. \<not> startswith_underscore x"]) simp
  ultimately show ?thesis using assms(1) by simp
qed

lemma options_setattr_meta:
  "options_setattr k v (s\<lparr>meta := x\<rparr>) = (options_setattr k v s)\<lparr>meta := x\<rparr>"
  by (simp add: options_setattr_def)

lemma fold_defaults_meta:
  "fold (\<lambda>k s. case g k of Some v \<Rightarrow> options_setattr k v s | None \<Rightarrow> s) ns (s\<lparr>meta := x\<rparr>) =
   (fold (\<lambda>k s. case g k of Some v \<Rightarrow> options_setattr k v s | None \<Rightarrow> s) ns s)\<lparr>meta := x\<rparr>"
proof (induction ns arbitrary: s)
  case Nil
  show ?case by simp
next
  case (Cons k ns)
  show ?case
  proof (cases "g k")
    case None
    then show ?thesis by (simp add: Cons.IH)
  next
    case (Some v)
    then show ?thesis by (simp add: options_setattr_meta Cons.IH)
  qed
qed

lemma leftover_keys:
  "map fst (filter (\<lambda>kv. P (fst kv)) d) = filter P (map fst d)"
  by (induction d) auto

lemma private_attributes_ignored:
  assumes ms: "meta self = Some (Some m)"
    and call: "contribute_to_class dj self ref cls nm = (err, self', cls')"
    and same: "filter (\<lambda>kv. \<not> startswith_underscore (fst kv)) d =
               filter (\<lambda>kv. \<not> startswith_underscore (fst kv)) (meta_dict m)"
  shows "(case contribute_to_class dj (self\<lparr>meta := Some (Some (m\<lparr>meta_dict := d\<rparr>))\<rparr>) ref cls nm of
           (err2, self2, cls2) \<Rightarrow> err2 = err \<and> self2\<lparr>meta := None\<rparr> = self'\<lparr>meta := None\<rparr>)"
proof -
  let ?m2 = "m\<lparr>meta_dict := d\<rparr>"
  let ?self2 = "self\<lparr>meta := Some (Some ?m2)\<rparr>"
  let ?F = "\<lambda>m k s. case meta_getattr m k of Some v \<Rightarrow> options_setattr k v s | None \<Rightarrow> s"
  let ?left = "\<lambda>e. filter (\<lambda>kv. \<not> startswith_underscore (fst kv) \<and> fst kv \<notin> set DEFAULT_NAMES \<and>
                       fst kv \<noteq> ''verbose_name_plural'') e"
  have ms2: "meta ?self2 = Some (Some ?m2)" by simp
  have pub: "\<forall>k\<in>set DEFAULT_NAMES. \<not> startswith_underscore k"
    by (simp add: DEFAULT_NAMES_def startswith_underscore_def)
  have ga: "meta_getattr ?m2 k = meta_getattr m k" if "k \<in> set DEFAULT_NAMES" for k
  proof -
    have "map_of d k = map_of (meta_dict m) k"
      using public_lookup [OF same] pub that by blast
    then show ?thesis by (simp add: meta_getattr_def split: option.splits)
  qed
  have fold_eq: "fold (?F ?m2) DEFAULT_NAMES s = fold (?F m) DEFAULT_NAMES s" for s
    by (rule fold_cong) (simp_all add: ga)
  have vnp: "map_of (meta_dict ?m2) ''verbose_name_plural'' =
             map_of (meta_dict m) ''verbose_name_plural''"
    using public_lookup [OF same, of "''verbose_name_plural''"]
    by (simp add: startswith_underscore_def)
  have left: "?left (meta_dict ?m2) = ?left (meta_dict m)"
  proof -
    have sp: "?left e =
        filter (\<lambda>kv. fst kv \<notin> set DEFAULT_NAMES \<and> fst kv \<noteq> ''verbose_name_plural'')
          (filter (\<lambda>kv. \<not> startswith_underscore (fst kv)) e)" for e
      unfolding filter_filter by (rule filter_cong) auto
    have "?left d = ?left (meta_dict m)"
      unfolding sp [of d] sp [of "meta_dict m"] same by (rule refl)
    then show ?thesis by simp
  qed
  define G where "G = (\<lambda>s::options. fold (?F m) DEFAULT_NAMES s)"
  define V where "V = (\<lambda>s::options. s\<lparr>verbose_name_plural :=
                   (case map_of (meta_dict m) ''verbose_name_plural'' of
                      Some v \<Rightarrow> v
                    | None \<Rightarrow> string_concat dj (verbose_name s) (PStr ''s''))\<rparr>)"
  define s6 where "s6 = self\<lparr>pk := Some (PKField dj),
                   installed := Some (re_sub_models (cls_module cls) \<in> set (INSTALLED_APPS dj)),
                   object_name := PStr (cls_name cls),
                   module_name' := PStr (lower (cls_name cls)),
                   verbose_name := get_verbose_name dj (cls_name cls),
                   model := Some ref, concrete_model := Some ref\<rparr>"
  define E where "E = TypeError (invalid_attributes_msg @ join_comma (map fst (?left (meta_dict m))))"
  have s6': "?self2\<lparr>pk := Some (PKField dj),
                   installed := Some (re_sub_models (cls_module cls) \<in> set (INSTALLED_APPS dj)),
                   object_name := PStr (cls_name cls),
                   module_name' := PStr (lower (cls_name cls)),
                   verbose_name := get_verbose_name dj (cls_name cls),
                   model := Some ref, concrete_model := Some ref\<rparr> = s6\<lparr>meta := Some (Some ?m2)\<rparr>"
    unfolding s6_def by simp
  have nf1: "contribute_to_class dj self ref cls nm =
      (if ?left (meta_dict m) \<noteq> [] then (Some E, V (G s6), cls\<lparr>cls_meta := Some (V (G s6))\<rparr>)
       else (None, (V (G s6))\<lparr>meta := None\<rparr>, cls\<lparr>cls_meta := Some ((V (G s6))\<lparr>meta := None\<rparr>)\<rparr>))"
    unfolding contribute_to_class_Meta [OF ms] Let_def G_def V_def s6_def E_def by (rule refl)
  have comm: "V (G (s\<lparr>meta := x\<rparr>)) = (V (G s))\<lparr>meta := x\<rparr>" for s x
    unfolding G_def fold_defaults_meta unfolding V_def by (simp split: option.splits)
  have nf2a: "contribute_to_class dj ?self2 ref cls nm =
      (if ?left (meta_dict m) \<noteq> [] then
         (Some E, V (G (s6\<lparr>meta := Some (Some ?m2)\<rparr>)),
          cls\<lparr>cls_meta := Some (V (G (s6\<lparr>meta := Some (Some ?m2)\<rparr>)))\<rparr>)
       else (None, (V (G (s6\<lparr>meta := Some (Some ?m2)\<rparr>)))\<lparr>meta := None\<rparr>,
             cls\<lparr>cls_meta := Some ((V (G (s6\<lparr>meta := Some (Some ?m2)\<rparr>)))\<lparr>meta := None\<rparr>)\<rparr>))"
    unfolding contribute_to_class_Meta [OF ms2] Let_def s6' fold_eq left vnp
    unfolding G_def V_def E_def by (rule refl)
  have nf2: "contribute_to_class dj ?self2 ref cls nm =
      (if ?left (meta_dict m) \<noteq> [] then
         (Some E, (V (G s6))\<lparr>meta := Some (Some ?m2)\<rparr>,
          cls\<lparr>cls_meta := Some ((V (G s6))\<lparr>meta := Some (Some ?m2)\<rparr>)\<rparr>)
       else (None, (V (G s6))\<lparr>meta := None\<rparr>, cls\<lparr>cls_meta := Some ((V (G s6))\<lparr>meta := None\<rparr>)\<rparr>))"
    unfolding nf2a comm by simp
  show ?thesis
  proof (cases "?left (meta_dict m) = []")
    case True
    with call nf1 have "err = None" "self' = (V (G s6))\<lparr>meta := None\<rparr>" by simp_all
    with True show ?thesis unfolding nf2 by simp
  next
    case False
    with call nf1 have "err = Some E" "self' = V (G s6)" by simp_all
    with False show ?thesis unfolding nf2 by simp
  qed
qed

lemma fold_defaults_keeps_meta:
  "meta (fold (\<lambda>k s. case g k of Some v \<Rightarrow> options_setattr k v s | None \<Rightarrow> s) ns s) = meta s"
proof -
  have "fold (\<lambda>k s. case g k of Some v \<Rightarrow> options_setattr k v s | None \<Rightarrow> s) ns (s\<lparr>meta := meta s\<rparr>) =
        (fold (\<lambda>k s. case g k of Some v \<Rightarrow> options_setattr k v s | None \<Rightarrow> s) ns s)\<lparr>meta := meta s\<rparr>"
    by (rule fold_defaults_meta)
  then have "fold (\<lambda>k s. case g k of Some v \<Rightarrow> options_setattr k v s | None \<Rightarrow> s) ns s =
        (fold (\<lambda>k s. case g k of Some v \<Rightarrow> options_setattr k v s | None \<Rightarrow> s) ns s)\<lparr>meta := meta s\<rparr>"
    by simp
  then have "meta (fold (\<lambda>k s. case g k of Some v \<Rightarrow> options_setattr k v s | None \<Rightarrow> s) ns s) =
        meta ((fold (\<lambda>k s. case g k of Some v \<Rightarrow> options_setattr k v s | None \<Rightarrow> s) ns s)\<lparr>meta := meta s\<rparr>)"
    by (rule arg_cong)
  then show ?thesis by simp
qed

lemma contribute_to_class_Meta_result:
  fixes self :: options
  assumes ms: "meta self = Some (Some m)"
    and call: "contribute_to_class dj self ref cls nm = (err, self', cls')"
  defines "s7 \<equiv> fold (\<lambda>k s. case meta_getattr m k of Some v \<Rightarrow> options_setattr k v s | None \<Rightarrow> s)
                   DEFAULT_NAMES
                   (self\<lparr>pk := Some (PKField dj),
                      installed := Some (re_sub_models (cls_module cls) \<in> set (INSTALLED_APPS dj)),
                      object_name := PStr (cls_name cls),
                      module_name' := PStr (lower (cls_name cls)),
                      verbose_name := get_verbose_name dj (cls_name cls),
                      model := Some ref, concrete_model := Some ref\<rparr>)"
    and "left \<equiv> filter (\<lambda>k. \<not> startswith_underscore k \<and> k \<notin> set DEFAULT_NAMES \<and>
                       k \<noteq> ''verbose_name_plural'') (dict_keys (meta_dict m))"
  shows "err = (if left = [] then None
                else Some (TypeError (invalid_attributes_msg @ join_comma left)))"
    and "self' = s7\<lparr>verbose_name_plural :=
                   (case map_of (meta_dict m) ''verbose_name_plural'' of
                      Some v \<Rightarrow> v
                    | None \<Rightarrow> string_concat dj (verbose_name s7) (PStr ''s'')),
                  meta := (if left = [] then None else Some (Some m))\<rparr>"
    and "cls' = cls\<lparr>cls_meta := Some self'\<rparr>"
proof -
  let ?lf = "filter (\<lambda>kv. \<not> startswith_underscore (fst kv) \<and> fst kv \<notin> set DEFAULT_NAMES \<and>
                       fst kv \<noteq> ''verbose_name_plural'') (meta_dict m)"
  have keys: "map fst ?lf = left"
    unfolding left_def dict_keys_def
    by (rule leftover_keys [where P = "\<lambda>k. \<not> startswith_underscore k \<and> k \<notin> set DEFAULT_NAMES \<and>
                       k \<noteq> ''verbose_name_plural''"])
  have empty: "(?lf = []) = (left = [])"
    unfolding keys [symmetric] by simp
  define V where "V = (\<lambda>s::options. s\<lparr>verbose_name_plural :=
                   (case map_of (meta_dict m) ''verbose_name_plural'' of
                      Some v \<Rightarrow> v
                    | None \<Rightarrow> string_concat dj (verbose_name s) (PStr ''s''))\<rparr>)"
  have nf: "contribute_to_class dj self ref cls nm =
      (if ?lf \<noteq> [] then
         (Some (TypeError (invalid_attributes_msg @ join_comma (map fst ?lf))),
          V s7, cls\<lparr>cls_meta := Some (V s7)\<rparr>)
       else (None, (V s7)\<lparr>meta := None\<rparr>, cls\<lparr>cls_meta := Some ((V s7)\<lparr>meta := None\<rparr>)\<rparr>))"
    unfolding contribute_to_class_Meta [OF ms] Let_def V_def s7_def by (rule refl)
  have m7: "meta (V s7) = Some (Some m)"
    unfolding V_def s7_def using ms by (simp add: fold_defaults_keeps_meta)
  have keep: "(V s7)\<lparr>meta := Some (Some m)\<rparr> = V s7"
  proof -
    have "(V s7)\<lparr>meta := meta (V s7)\<rparr> = V s7" by simp
    then show ?thesis unfolding m7 .
  qed
  show "err = (if left = [] then None
                else Some (TypeError (invalid_attributes_msg @ join_comma left)))"
    using call unfolding nf keys empty by (simp split: if_splits)
  have s': "self' = (V s7)\<lparr>meta := (if left = [] then None else Some (Some m))\<rparr>"
    using call unfolding nf keys empty by (simp add: keep split: if_splits)
  then show "self' = s7\<lparr>verbose_name_plural :=
                   (case map_of (meta_dict m) ''verbose_name_plural'' of
                      Some v \<Rightarrow> v
                    | None \<Rightarrow> string_concat dj (verbose_name s7) (PStr ''s'')),
                  meta := (if left = [] then None else Some (Some m))\<rparr>"
    unfolding V_def by simp
  show "cls' = cls\<lparr>cls_meta := Some self'\<rparr>"
    using call unfolding nf keys empty by (auto split: if_splits)
qed

lemma options_getattr_frame:
  "options_getattr (s\<lparr>verbose_name_plural := a, meta := b\<rparr>) k = options_getattr s k"
  by (simp add: options_getattr_def)

text \<open>
  Claim C2. For a \<^verbatim>\<open>Meta\<close> class \<open>m\<close> passed to \<^verbatim>\<open>contribute_to_class\<close>:
  attributes whose names start with an underscore are ignored (another \<^verbatim>\<open>Meta\<close> with
  the same public attributes gives the same exception and the same \<^verbatim>\<open>Options\<close>);
  every name of \<open>DEFAULT_NAMES\<close> that \<^verbatim>\<open>Meta\<close> has is copied onto the instance;
  \<^verbatim>\<open>verbose_name_plural\<close> is the one of \<^verbatim>\<open>Meta\<close>'s own \<^verbatim>\<open>__dict__\<close> when
  present and otherwise \<^verbatim>\<open>string_concat(verbose_name, 's')\<close>; and TypeError is raised,
  naming the leftover attributes, exactly when the own \<^verbatim>\<open>__dict__\<close> has a public
  attribute that is neither in \<open>DEFAULT_NAMES\<close> nor \<^verbatim>\<open>verbose_name_plural\<close>.
\<close>

theorem contribute_to_class_Meta_attributes:
  assumes ms: "meta self = Some (Some m)"
    and call: "contribute_to_class dj self ref cls nm = (err, self', cls')"
  shows "(\<forall>d. filter (\<lambda>kv. \<not> startswith_underscore (fst kv)) d =
               filter (\<lambda>kv. \<not> startswith_underscore (fst kv)) (meta_dict m) \<longrightarrow>
            (case contribute_to_class dj (self\<lparr>meta := Some (Some (m\<lparr>meta_dict := d\<rparr>))\<rparr>) ref cls nm of
               (err2, self2, cls2) \<Rightarrow> err2 = err \<and> self2\<lparr>meta := None\<rparr> = self'\<lparr>meta := None\<rparr>)) \<and>
         (\<forall>k\<in>set DEFAULT_NAMES. \<forall>v. meta_getattr m k = Some v \<longrightarrow> options_getattr self' k = Some v) \<and>
         verbose_name_plural self' =
           (case map_of (meta_dict m) ''verbose_name_plural'' of
              Some v \<Rightarrow> v
            | None \<Rightarrow> string_concat dj (verbose_name self') (PStr ''s'')) \<and>
         err = (case filter (\<lambda>k. \<not> startswith_underscore k \<and> k \<notin> set DEFAULT_NAMES \<and>
                              k \<noteq> ''verbose_name_plural'') (dict_keys (meta_dict m)) of
                  [] \<Rightarrow> None
                | k # ks \<Rightarrow> Some (TypeError (invalid_attributes_msg @ join_comma (k # ks)))) \<and>
         ((\<exists>msg. err = Some (TypeError msg)) \<longleftrightarrow>
            (\<exists>k\<in>set (dict_keys (meta_dict m)).
               \<not> startswith_underscore k \<and> k \<notin> set DEFAULT_NAMES \<and> k \<noteq> ''verbose_name_plural''))"
proof -
  note res = contribute_to_class_Meta_result [OF ms call]
  let ?left = "filter (\<lambda>k. \<not> startswith_underscore k \<and> k \<notin> set DEFAULT_NAMES \<and>
                          k \<noteq> ''verbose_name_plural'') (dict_keys (meta_dict m))"
  have c1: "\<forall>d. filter (\<lambda>kv. \<not> startswith_underscore (fst kv)) d =
               filter (\<lambda>kv. \<not> startswith_underscore (fst kv)) (meta_dict m) \<longrightarrow>
            (case contribute_to_class dj (self\<lparr>meta := Some (Some (m\<lparr>meta_dict := d\<rparr>))\<rparr>) ref cls nm of
               (err2, self2, cls2) \<Rightarrow> err2 = err \<and> self2\<lparr>meta := None\<rparr> = self'\<lparr>meta := None\<rparr>)"
    using private_attributes_ignored [OF ms call] by blast
  have c2: "\<forall>k\<in>set DEFAULT_NAMES. \<forall>v. meta_getattr m k = Some v \<longrightarrow> options_getattr self' k = Some v"
  proof (intro ballI allI impI)
    fix k v assume k: "k \<in> set DEFAULT_NAMES" and v: "meta_getattr m k = Some v"
    show "options_getattr self' k = Some v"
      unfolding res(2) options_getattr_frame options_getattr_defaults [OF k] v by simp
  qed
  have c3: "verbose_name_plural self' =
           (case map_of (meta_dict m) ''verbose_name_plural'' of
              Some v \<Rightarrow> v
            | None \<Rightarrow> string_concat dj (verbose_name self') (PStr ''s''))"
    by (subst (1 2) res(2)) (simp split: option.splits)
  have c4: "err = (case ?left of
                  [] \<Rightarrow> None
                | k # ks \<Rightarrow> Some (TypeError (invalid_attributes_msg @ join_comma (k # ks))))"
    unfolding res(1) by (simp split: list.splits)
  have c5: "(\<exists>msg. err = Some (TypeError msg)) \<longleftrightarrow>
            (\<exists>k\<in>set (dict_keys (meta_dict m)).
               \<not> startswith_underscore k \<and> k \<notin> set DEFAULT_NAMES \<and> k \<noteq> ''verbose_name_plural'')"
  proof -
    have "(\<exists>msg. err = Some (TypeError msg)) \<longleftrightarrow> ?left \<noteq> []"
      unfolding c4 by (simp split: list.splits)
    then show ?thesis by (simp add: filter_empty_conv)
  qed
  from c1 c2 c3 c4 c5 show ?thesis by (intro conjI)
qed

lemmas eval_defs = contribute_to_class_def Options_def example_django_def example_Meta_def
      example_class_def drop_private_def apply_default_def dict_pop_def dict_del_def dict_keys_def
      dict_in_def DEFAULT_NAMES_def startswith_underscore_def meta_hasattr_def meta_getattr_def
      options_setattr_def options_getattr_def lower_def lower_char_def Let_def re_sub_models_def
      endswith_def PKField_def invalid_attributes_msg_def

theorem contribute_to_class_Meta_attributes_witness:
  "fst (contribute_to_class example_django (Options example_django (Some example_Meta) (PStr ''shop''))
     1 example_class ''_meta'') = Some (TypeError (invalid_attributes_msg @ ''colour'')) \<and>
   options_getattr (fst (snd (contribute_to_class example_django
     (Options example_django (Some example_Meta) (PStr ''shop'')) 1 example_class ''_meta'')))
     ''verbose_name'' = Some (PStr ''salutation'') \<and>
   options_getattr (fst (snd (contribute_to_class example_django
     (Options example_django (Some example_Meta) (PStr ''shop'')) 1 example_class ''_meta'')))
     ''app_label'' = Some (PStr ''shop'')"
proof -
  let ?self = "Options example_django (Some example_Meta) (PStr ''shop'')"
  let ?r = "contribute_to_class example_django ?self 1 example_class ''_meta''"
  have ms: "meta ?self = Some (Some example_Meta)" by (simp add: Options_def)
  have call: "?r = (fst ?r, fst (snd ?r), snd (snd ?r))" by simp
  note th = contribute_to_class_Meta_attributes [OF ms call]
  have copied: "\<forall>k\<in>set DEFAULT_NAMES. \<forall>v. meta_getattr example_Meta k = Some v \<longrightarrow>
      options_getattr (fst (snd ?r)) k = Some v"
    using th by (elim conjE)
  have err: "fst ?r = (case filter (\<lambda>k. \<not> startswith_underscore k \<and> k \<notin> set DEFAULT_NAMES \<and>
                              k \<noteq> ''verbose_name_plural'') (dict_keys (meta_dict example_Meta)) of
                  [] \<Rightarrow> None
                | k # ks \<Rightarrow> Some (TypeError (invalid_attributes_msg @ join_comma (k # ks))))"
    using th by (elim conjE)
  have e: "fst ?r = Some (TypeError (invalid_attributes_msg @ ''colour''))"
    unfolding err
    by (simp add: example_Meta_def dict_keys_def startswith_underscore_def DEFAULT_NAMES_def)
  have k1: "''verbose_name'' \<in> set DEFAULT_NAMES" and k2: "''app_label'' \<in> set DEFAULT_NAMES"
    by (simp_all add: DEFAULT_NAMES_def)
  have g1: "meta_getattr example_Meta ''verbose_name'' = Some (PStr ''salutation'')"
    and g2: "meta_getattr example_Meta ''app_label'' = Some (PStr ''shop'')"
    by (simp_all add: meta_getattr_def example_Meta_def)
  have v1: "options_getattr (fst (snd ?r)) ''verbose_name'' = Some (PStr ''salutation'')"
    using copied k1 g1 by blast
  have v2: "options_getattr (fst (snd ?r)) ''app_label'' = Some (PStr ''shop'')"
    using copied k2 g2 by blast
  from e v1 v2 show ?thesis by (intro conjI)
qed

section \<open>The primary-key stand-in\<close>

text \<open>
  Claim C7. Every class processed by \<^verbatim>\<open>contribute_to_class\<close> gets \<^verbatim>\<open>_meta.pk\<close> set to a
  \<^verbatim>\<open>PKField\<close> instance whose \<^verbatim>\<open>name\<close> and \<^verbatim>\<open>attname\<close> are both \<^verbatim>\<open>'pk'\<close>, whose
  \<^verbatim>\<open>to_python(value)\<close> is \<^verbatim>\<open>str(value)\<close> and whose \<^verbatim>\<open>value_to_string(obj)\<close> is
  \<^verbatim>\<open>str(obj.pk)\<close>.

  The class body of \<^verbatim>\<open>PKField\<close> binds \<^verbatim>\<open>name = 'pk'\<close> and \<^verbatim>\<open>attname = 'pk'\<close>, but
  \<^verbatim>\<open>PKField()\<close> runs the constructor inherited from the framework's \<^verbatim>\<open>Field\<close>, which
  assigns \<^verbatim>\<open>self.name = name\<close> with the default \<^verbatim>\<open>None\<close>. With that constructor
  (\<open>example_django_Field\<close>) the instance attribute shadows the class attribute: the
  \<^verbatim>\<open>pk\<close> that \<^verbatim>\<open>contribute_to_class\<close> attaches to \<^verbatim>\<open>Greeting\<close> reads \<^verbatim>\<open>name\<close> as
  \<^verbatim>\<open>None\<close>, not \<^verbatim>\<open>'pk'\<close>. The other parts hold there: \<^verbatim>\<open>pk\<close> is a \<^verbatim>\<open>PKField\<close>,
  \<^verbatim>\<open>attname\<close> reads \<^verbatim>\<open>'pk'\<close> from the class, and the two methods return \<^verbatim>\<open>str\<close> of
  the value and of \<^verbatim>\<open>obj.pk\<close>.
\<close>

theorem PKField_name_shadowed:
  "pk (fst (snd (contribute_to_class example_django_Field
      (Options example_django_Field None PNone) 1 example_class ''_meta''))) =
     Some (PKField example_django_Field) \<and>
   map_of PKField_class_dict ''name'' = Some (PStr ''pk'') \<and>
   pkfield_getattr (PKField example_django_Field) ''name'' = Some PNone \<and>
   pkfield_getattr (PKField example_django_Field) ''attname'' = Some (PStr ''pk'') \<and>
   to_python example_django_Field (PKField example_django_Field) (PStr ''doc1'') = Inr ''doc1'' \<and>
   value_to_string example_django_Field (PKField example_django_Field) [''pk'' \<mapsto> PStr ''doc1''] =
     Inr ''doc1''"
proof -
  let ?r = "contribute_to_class example_django_Field
      (Options example_django_Field None PNone) 1 example_class ''_meta''"
  have call: "?r = (fst ?r, fst (snd ?r), snd (snd ?r))" by simp
  have a: "pk (fst (snd ?r)) = Some (PKField example_django_Field)"
    using contribute_to_class_pk [OF call] by simp
  have i: "Field_init example_django_Field =
      [(''name'', PNone), (''verbose_name'', PNone), (''primary_key'', PBool False)]"
    by (simp add: example_django_Field_def)
  have s: "str example_django_Field (PStr ''doc1'') = Inr ''doc1''"
    by (simp add: example_django_Field_def example_django_def)
  have b: "map_of PKField_class_dict ''name'' = Some (PStr ''pk'')"
    by (simp add: PKField_class_dict_def)
  have c: "pkfield_getattr (PKField example_django_Field) ''name'' = Some PNone"
    by (simp add: pkfield_getattr_def PKField_def i)
  have d: "pkfield_getattr (PKField example_django_Field) ''attname'' = Some (PStr ''pk'')"
    by (simp add: pkfield_getattr_def PKField_def PKField_class_dict_def i)
  have e: "to_python example_django_Field (PKField example_django_Field) (PStr ''doc1'') = Inr ''doc1''"
    by (simp add: to_python_def s)
  have f: "value_to_string example_django_Field (PKField example_django_Field)
      [''pk'' \<mapsto> PStr ''doc1''] = Inr ''doc1''"
    by (simp add: value_to_string_def s)
  from a b c d e f show ?thesis by blast
qed

section \<open>The default names\<close>

text \<open>
  A \<^verbatim>\<open>Meta\<close> that binds none of \<open>DEFAULT_NAMES\<close> but defines
  \<^verbatim>\<open>verbose_name_plural\<close>: the call returns, \<^verbatim>\<open>verbose_name\<close> is the default, and
  \<^verbatim>\<open>verbose_name_plural\<close> is the value of \<^verbatim>\<open>Meta\<close>, not \<^verbatim>\<open>verbose_name\<close>
  followed by \<^verbatim>\<open>'s'\<close>.
\<close>

lemma fold_defaults_none:
  assumes "\<forall>k\<in>set ns. g k = None"
  shows "fold (\<lambda>k s. case g k of Some v \<Rightarrow> options_setattr k v s | None \<Rightarrow> s) ns s = s"
  using assms by (induction ns arbitrary: s) simp_all

theorem plural_from_Meta_counterexample:
  "meta_getattr example_Meta_plural ''verbose_name'' = None \<and>
   meta_getattr example_Meta_plural ''db_table'' = None \<and>
   meta_getattr example_Meta_plural ''ordering'' = None \<and>
   meta_getattr example_Meta_plural ''app_label'' = None \<and>
   fst (contribute_to_class example_django
          (Options example_django (Some example_Meta_plural) (PStr ''shop'')) 1 example_class ''_meta'') =
     None \<and>
   verbose_name (fst (snd (contribute_to_class example_django
          (Options example_django (Some example_Meta_plural) (PStr ''shop'')) 1 example_class ''_meta''))) =
     get_verbose_name example_django ''Greeting'' \<and>
   verbose_name_plural (fst (snd (contribute_to_class example_django
          (Options example_django (Some example_Meta_plural) (PStr ''shop'')) 1 example_class ''_meta''))) =
     PStr ''salutations'' \<and>
   string_concat example_django (get_verbose_name example_django ''Greeting'') (PStr ''s'') \<noteq>
     PStr ''salutations''"
  by (simp add: eval_defs example_Meta_plural_def)

text \<open>
  Claim C4, amended. After \<^verbatim>\<open>contribute_to_class(cls, name)\<close>, where \<^verbatim>\<open>Meta\<close> is
  \<^verbatim>\<open>None\<close> or a class that has none of the names of \<open>DEFAULT_NAMES\<close> and does not
  itself define \<^verbatim>\<open>verbose_name_plural\<close>: \<^verbatim>\<open>object_name\<close> is \<^verbatim>\<open>cls.__name__\<close>,
  \<^verbatim>\<open>module_name\<close> is that name in lower case, \<^verbatim>\<open>verbose_name\<close> is
  \<^verbatim>\<open>get_verbose_name(cls.__name__)\<close> and \<^verbatim>\<open>verbose_name_plural\<close> is
  \<^verbatim>\<open>string_concat(verbose_name, 's')\<close>, whether or not a \<^verbatim>\<open>Meta\<close> was supplied.
\<close>

theorem defaults_without_Meta_overrides:
  assumes none: "meta self = Some None \<or>
      (\<exists>m. meta self = Some (Some m) \<and> (\<forall>k\<in>set DEFAULT_NAMES. meta_getattr m k = None) \<and>
           map_of (meta_dict m) ''verbose_name_plural'' = None)"
    and call: "contribute_to_class dj self ref cls nm = (err, self', cls')"
  shows "object_name self' = PStr (cls_name cls) \<and>
         module_name' self' = PStr (lower (cls_name cls)) \<and>
         verbose_name self' = get_verbose_name dj (cls_name cls) \<and>
         verbose_name_plural self' =
           string_concat dj (get_verbose_name dj (cls_name cls)) (PStr ''s'')"
  using none
proof (elim disjE exE conjE)
  assume "meta self = Some None"
  from call [unfolded contribute_to_class_None [OF this]] show ?thesis
    by (auto simp: Let_def)
next
  fix m
  assume ms: "meta self = Some (Some m)"
    and dn: "\<forall>k\<in>set DEFAULT_NAMES. meta_getattr m k = None"
    and vnp: "map_of (meta_dict m) ''verbose_name_plural'' = None"
  note res = contribute_to_class_Meta_result [OF ms call]
  show ?thesis
    by (subst (1 2 3 4) res(2)) (simp add: fold_defaults_none [OF dn] vnp)
qed

theorem defaults_without_Meta_overrides_witness:
  "verbose_name (fst (snd (contribute_to_class example_django
      (Options example_django (Some example_Meta_private) (PStr ''shop'')) 1 example_class ''_meta''))) =
     PStr ''greeting'' \<and>
   verbose_name_plural (fst (snd (contribute_to_class example_django
      (Options example_django (Some example_Meta_private) (PStr ''shop'')) 1 example_class ''_meta''))) =
     PList [PStr ''greeting'', PStr ''s''] \<and>
   object_name (fst (snd (contribute_to_class example_django
      (Options example_django (Some example_Meta_private) (PStr ''shop'')) 1 example_class ''_meta''))) =
     PStr ''Greeting'' \<and>
   module_name' (fst (snd (contribute_to_class example_django
      (Options example_django (Some example_Meta_private) (PStr ''shop'')) 1 example_class ''_meta''))) =
     PStr ''greeting''"
proof -
  let ?self = "Options example_django (Some example_Meta_private) (PStr ''shop'')"
  let ?r = "contribute_to_class example_django ?self 1 example_class ''_meta''"
  have hyp: "meta ?self = Some None \<or>
      (\<exists>m. meta ?self = Some (Some m) \<and> (\<forall>k\<in>set DEFAULT_NAMES. meta_getattr m k = None) \<and>
           map_of (meta_dict m) ''verbose_name_plural'' = None)"
    by (simp add: Options_def example_Meta_private_def meta_getattr_def DEFAULT_NAMES_def)
  have call: "?r = (fst ?r, fst (snd ?r), snd (snd ?r))" by simp
  note th = defaults_without_Meta_overrides [OF hyp call]
  have n: "cls_name example_class = ''Greeting''" by (simp add: example_class_def)
  have l: "lower ''Greeting'' = ''greeting''" by code_simp
  have g: "get_verbose_name example_django ''Greeting'' = PStr ''greeting''"
    by (simp add: example_django_def l)
  have c: "string_concat example_django (PStr ''greeting'') (PStr ''s'') =
      PList [PStr ''greeting'', PStr ''s'']"
    by (simp add: example_django_def)
  from th show ?thesis unfolding n l g c by blast
qed

section \<open>Re-exports\<close>

lemma reexport_spec:
  "(case reexport schema ns g of
      Inr g' \<Rightarrow> (\<forall>n\<in>set ns. schema n \<noteq> None \<and> g' n = schema n) \<and>
                (\<forall>n. n \<notin> set ns \<longrightarrow> g' n = g n)
    | Inl e \<Rightarrow> (\<exists>n\<in>set ns. schema n = None \<and> e = AttributeError n))"
proof (induction ns arbitrary: g)
  case Nil
  show ?case by simp
next
  case (Cons a ns)
  show ?case
  proof (cases "schema a")
    case None
    then show ?thesis by simp
  next
    case (Some v)
    have step: "reexport schema (a # ns) g = reexport schema ns (g(a \<mapsto> v))"
      using Some by simp
    show ?thesis
    proof (cases "reexport schema ns (g(a \<mapsto> v))")
      case (Inl e)
      with Cons.IH [of "g(a \<mapsto> v)"] have "\<exists>n\<in>set ns. schema n = None \<and> e = AttributeError n"
        by (simp only: sum.case)
      then show ?thesis unfolding step Inl by auto
    next
      case (Inr g')
      with Cons.IH [of "g(a \<mapsto> v)"]
      have ih: "(\<forall>n\<in>set ns. schema n \<noteq> None \<and> g' n = schema n) \<and>
                (\<forall>n. n \<notin> set ns \<longrightarrow> g' n = (g(a \<mapsto> v)) n)"
        by (simp only: sum.case)
      have "g' a = schema a"
      proof (cases "a \<in> set ns")
        case True
        with ih show ?thesis by blast
      next
        case False
        with ih have "g' a = (g(a \<mapsto> v)) a" by blast
        then show ?thesis using Some by simp
      qed
      moreover have "\<forall>n. n \<notin> set (a # ns) \<longrightarrow> g' n = g n"
      proof (intro allI impI)
        fix n assume n: "n \<notin> set (a # ns)"
        then have "g' n = (g(a \<mapsto> v)) n" using ih by simp
        then show "g' n = g n" using n by simp
      qed
      ultimately show ?thesis unfolding step Inr using ih Some by simp
    qed
  qed
qed

text \<open>
  Claim C6. When the module has loaded, every re-exported name (\<^verbatim>\<open>DocumentSchema\<close>,
  the property classes and the conversion utilities) is bound to the very object that
  \<^verbatim>\<open>couchdbkit.schema\<close> binds under that name, and no other name is touched; loading
  fails, with AttributeError, only if \<^verbatim>\<open>couchdbkit.schema\<close> lacks one of the names.
\<close>

theorem reexports_identical:
  "(case module_reexports schema g of
      Inr g' \<Rightarrow> (\<forall>n\<in>set REEXPORTED. schema n \<noteq> None \<and> g' n = schema n) \<and>
                (\<forall>n. n \<notin> set REEXPORTED \<longrightarrow> g' n = g n)
    | Inl e \<Rightarrow> (\<exists>n\<in>set REEXPORTED. schema n = None \<and> e = AttributeError n))"
  unfolding module_reexports_def by (rule reexport_spec)

theorem reexports_identical_witness:
  "(case module_reexports example_schema Map.empty of
      Inr g' \<Rightarrow> g' ''StringProperty'' = Some 14 \<and> g' ''convert_property'' = Some 16 \<and>
                g' ''Document'' = None
    | Inl e \<Rightarrow> False)"
proof -
  have all: "\<forall>n\<in>set REEXPORTED. example_schema n \<noteq> None"
    by (simp add: example_schema_def)
  have m1: "''StringProperty'' \<in> set REEXPORTED" and m2: "''convert_property'' \<in> set REEXPORTED"
    and m3: "''Document'' \<notin> set REEXPORTED"
    by (simp_all add: REEXPORTED_def)
  have e1: "example_schema ''StringProperty'' = Some 14"
    and e2: "example_schema ''convert_property'' = Some 16"
    using m1 m2 by (simp_all add: example_schema_def)
  show ?thesis
  proof (cases "module_reexports example_schema Map.empty")
    case (Inl e)
    with reexports_identical [of example_schema Map.empty] all show ?thesis by auto
  next
    case (Inr g')
    with reexports_identical [of example_schema Map.empty] m1 m2 m3 e1 e2 show ?thesis
      by (simp add: e1 [symmetric] e2 [symmetric])
  qed
qed

section \<open>Document.get_db\<close>

lemma Document_get_db_cached:
  assumes "class_getattr cls_db (classes w) cls = Some db" and "db \<noteq> PNone"
  shows "Document_get_db lib cls w = (Inr db, w)"
  using assms by (simp add: Document_get_db_def)

lemma Document_get_db_first:
  assumes unset: "class_getattr cls_db (classes w) cls = None \<or>
                  class_getattr cls_db (classes w) cls = Some PNone"
    and call: "Document_get_db lib cls w = (Inr db, w')"
  shows "\<exists>opts c. class_getattr cls_meta (classes w) cls = Some opts \<and>
           get_db lib (app_label opts) (registry w) = Inr db \<and>
           classes w cls = Some c \<and>
           w' = w\<lparr>events := events w @ [GetDb (app_label opts)],
                  classes := (classes w)(cls \<mapsto> c\<lparr>cls_db := Some db\<rparr>)\<rparr>"
proof -
  have d: "(case class_getattr cls_db (classes w) cls of None \<Rightarrow> PNone | Some v \<Rightarrow> v) = PNone"
    using unset by auto
  obtain opts where o: "class_getattr cls_meta (classes w) cls = Some opts"
    using call unfolding Document_get_db_def d by (auto simp: Let_def split: option.splits)
  then obtain c where c: "classes w cls = Some c"
    by (auto simp: class_getattr_def split: option.splits)
  have g: "get_db lib (app_label opts) (registry w) = Inr db"
    using call unfolding Document_get_db_def d o
    by (auto simp: Let_def c split: sum.splits)
  have "w' = w\<lparr>events := events w @ [GetDb (app_label opts)],
                  classes := (classes w)(cls \<mapsto> c\<lparr>cls_db := Some db\<rparr>)\<rparr>"
    using call unfolding Document_get_db_def d o
    by (auto simp: Let_def c g split: sum.splits)
  with o c g show ?thesis by blast
qed

text \<open>
  Claim C10. On a class whose \<^verbatim>\<open>_db\<close> is unset (absent or \<^verbatim>\<open>None\<close>), a first
  call of \<^verbatim>\<open>get_db\<close> that returns a database resolves it with \<^verbatim>\<open>get_db\<close> of the
  loading module from the \<^verbatim>\<open>app_label\<close> of the class's \<^verbatim>\<open>_meta\<close> (one call) and
  stores it in the class's own \<^verbatim>\<open>_db\<close>; every later call on that class returns the
  same object and changes nothing: no call to the loading module is made again.
\<close>

theorem get_db_cached:
  assumes unset: "class_getattr cls_db (classes w) cls = None \<or>
                  class_getattr cls_db (classes w) cls = Some PNone"
    and call: "Document_get_db lib cls w = (Inr db, w')"
    and db: "db \<noteq> PNone"
  shows "(\<exists>opts. class_getattr cls_meta (classes w) cls = Some opts \<and>
            get_db lib (app_label opts) (registry w) = Inr db \<and>
            events w' = events w @ [GetDb (app_label opts)]) \<and>
         (\<exists>c. classes w' cls = Some c \<and> cls_db c = Some db) \<and>
         Document_get_db lib cls w' = (Inr db, w') \<and>
         (\<forall>n. ((\<lambda>s. snd (Document_get_db lib cls s)) ^^ n) w' = w' \<and>
              fst (Document_get_db lib cls (((\<lambda>s. snd (Document_get_db lib cls s)) ^^ n) w')) =
                Inr db)"
proof -
  from Document_get_db_first [OF unset call] obtain opts c where
    o: "class_getattr cls_meta (classes w) cls = Some opts"
    and g: "get_db lib (app_label opts) (registry w) = Inr db"
    and c: "classes w cls = Some c"
    and w': "w' = w\<lparr>events := events w @ [GetDb (app_label opts)],
                  classes := (classes w)(cls \<mapsto> c\<lparr>cls_db := Some db\<rparr>)\<rparr>"
    by blast
  have ev: "events w' = events w @ [GetDb (app_label opts)]" unfolding w' by simp
  have own: "classes w' cls = Some (c\<lparr>cls_db := Some db\<rparr>)" unfolding w' by simp
  have look: "class_getattr cls_db (classes w') cls = Some db"
    unfolding class_getattr_def own by simp
  have again: "Document_get_db lib cls w' = (Inr db, w')"
    by (rule Document_get_db_cached [OF look db])
  have iter: "((\<lambda>s. snd (Document_get_db lib cls s)) ^^ n) w' = w'" for n
    by (induction n) (simp_all add: again)
  have c1: "\<exists>opts. class_getattr cls_meta (classes w) cls = Some opts \<and>
            get_db lib (app_label opts) (registry w) = Inr db \<and>
            events w' = events w @ [GetDb (app_label opts)]"
    using o g ev by blast
  have c2: "\<exists>c. classes w' cls = Some c \<and> cls_db c = Some db"
    using own by simp
  have c4: "\<forall>n. ((\<lambda>s. snd (Document_get_db lib cls s)) ^^ n) w' = w' \<and>
              fst (Document_get_db lib cls (((\<lambda>s. snd (Document_get_db lib cls s)) ^^ n) w')) =
                Inr db"
    by (simp add: iter again)
  from c1 c2 again c4 show ?thesis by (intro conjI)
qed

theorem get_db_cached_witness:
  "fst (Document_get_db example_couchdbkit 1 example_world_registered) = Inr (PObj 4) \<and>
   events (snd (Document_get_db example_couchdbkit 1 example_world_registered)) =
     [GetDb (PStr ''shop'')] \<and>
   Document_get_db example_couchdbkit 1
     (snd (Document_get_db example_couchdbkit 1 example_world_registered)) =
     (Inr (PObj 4), snd (Document_get_db example_couchdbkit 1 example_world_registered))"
proof -
  let ?r = "Document_get_db example_couchdbkit 1 example_world_registered"
  have meta: "class_getattr cls_meta (classes example_world_registered) 1 =
      Some (Options example_django None (PStr ''shop''))"
    by (simp add: class_getattr_def example_world_registered_def example_world_def example_class_def)
  have unset: "class_getattr cls_db (classes example_world_registered) 1 = None \<or>
               class_getattr cls_db (classes example_world_registered) 1 = Some PNone"
    by (simp add: class_getattr_def example_world_registered_def example_world_def example_class_def)
  have d: "class_getattr cls_db (classes example_world_registered) 1 = None"
    by (simp add: class_getattr_def example_world_registered_def example_world_def example_class_def)
  have g: "get_db example_couchdbkit (PStr ''shop'') reg = Inr (PObj 4)" for reg
    by (simp add: example_couchdbkit_def)
  have lbl: "app_label (Options example_django None (PStr ''shop'')) = PStr ''shop''"
    by (simp add: Options_def)
  have res: "fst ?r = Inr (PObj 4)"
    unfolding Document_get_db_def d meta
    by (simp add: Let_def lbl g split: option.splits)
  have call: "?r = (Inr (PObj 4), snd ?r)"
    using res by (metis prod.collapse)
  have db: "PObj 4 \<noteq> PNone" by simp
  note th = get_db_cached [OF unset call db]
  have ev0: "events example_world_registered = []"
    by (simp add: example_world_registered_def example_world_def)
  from th meta have ev: "events (snd ?r) = [GetDb (PStr ''shop'')]"
    by (auto simp: ev0 lbl)
  from th have again: "Document_get_db example_couchdbkit 1 (snd ?r) = (Inr (PObj 4), snd ?r)"
    by blast
  from res ev again show ?thesis by (intro conjI)
qed

section \<open>DocumentMeta\<close>

lemma DocumentMeta_new_no_parents:
  assumes call: "DocumentMeta_new dj lib nm bases att w = Inr (res, w')"
    and par: "filter (isinstance_DocumentMeta (classes w)) bases = []"
  shows "\<exists>c. super_new lib nm bases att (classes w) = Inr c \<and> res = Some (next_ref w) \<and>
           w' = w\<lparr>classes := (classes w)(next_ref w \<mapsto> c), next_ref := Suc (next_ref w)\<rparr>"
proof (cases "super_new lib nm bases att (classes w)")
  case (Inl e)
  with call par show ?thesis by (simp add: DocumentMeta_new_def)
next
  case (Inr c)
  with call par show ?thesis by (auto simp: DocumentMeta_new_def)
qed

lemma DocumentMeta_new_step:
  assumes par: "filter (isinstance_DocumentMeta (classes w)) bases \<noteq> []"
    and c: "super_new lib nm bases att (classes w) = Inr c"
    and l: "resolve_app_label (sys_modules w)
             (select_meta att ((classes w)(next_ref w \<mapsto> c)) (next_ref w)) (cls_module c) = Inr lbl"
    and ct: "contribute_to_class dj
             (Options dj (select_meta att ((classes w)(next_ref w \<mapsto> c)) (next_ref w)) lbl)
             (next_ref w) c ''_meta'' = (err, opts, c')"
  shows "DocumentMeta_new dj lib nm bases att w =
     (case err of
        Some e \<Rightarrow> Inl e
      | None \<Rightarrow>
          (case register_schema lib lbl (next_ref w) ((classes w)(next_ref w \<mapsto> c')) (registry w) of
             Inl e \<Rightarrow> Inl e
           | Inr reg \<Rightarrow>
               (case get_schema lib lbl nm reg of
                  Inl e \<Rightarrow> Inl e
                | Inr res \<Rightarrow>
                    Inr (res,
                         w\<lparr>classes := (classes w)(next_ref w \<mapsto> c'), next_ref := Suc (next_ref w),
                           registry := reg,
                           events := events w @ [RegisterSchema lbl (next_ref w), GetSchema lbl nm]\<rparr>))))"
proof -
  have add: "add_to_class dj (next_ref w) c ''_meta''
      (OptionsValue (Options dj (select_meta att ((classes w)(next_ref w \<mapsto> c)) (next_ref w)) lbl)) =
      (err, c')"
    by (simp add: add_to_class_def ct)
  show ?thesis
    unfolding DocumentMeta_new_def Let_def
    using par
    by (simp add: c l add split: option.splits sum.splits)
qed


lemma DocumentMeta_new_parents:
  assumes call: "DocumentMeta_new dj lib nm bases att w = Inr (res, w')"
    and par: "filter (isinstance_DocumentMeta (classes w)) bases \<noteq> []"
  shows "\<exists>c lbl opts c' reg.
           super_new lib nm bases att (classes w) = Inr c \<and>
           resolve_app_label (sys_modules w)
             (select_meta att ((classes w)(next_ref w \<mapsto> c)) (next_ref w)) (cls_module c) = Inr lbl \<and>
           contribute_to_class dj
             (Options dj (select_meta att ((classes w)(next_ref w \<mapsto> c)) (next_ref w)) lbl)
             (next_ref w) c ''_meta'' = (None, opts, c') \<and>
           register_schema lib lbl (next_ref w) ((classes w)(next_ref w \<mapsto> c')) (registry w) = Inr reg \<and>
           get_schema lib lbl nm reg = Inr res \<and>
           w' = w\<lparr>classes := (classes w)(next_ref w \<mapsto> c'), next_ref := Suc (next_ref w),
                  registry := reg,
                  events := events w @ [RegisterSchema lbl (next_ref w), GetSchema lbl nm]\<rparr>"
proof (cases "super_new lib nm bases att (classes w)")
  case (Inl e)
  with call par show ?thesis by (simp add: DocumentMeta_new_def Let_def)
next
  case c: (Inr c)
  let ?mt = "select_meta att ((classes w)(next_ref w \<mapsto> c)) (next_ref w)"
  show ?thesis
  proof (cases "resolve_app_label (sys_modules w) ?mt (cls_module c)")
    case (Inl e)
    with call par c show ?thesis by (simp add: DocumentMeta_new_def Let_def)
  next
    case l: (Inr lbl)
    obtain err opts c' where
      ct: "contribute_to_class dj (Options dj ?mt lbl) (next_ref w) c ''_meta'' = (err, opts, c')"
      by (cases "contribute_to_class dj (Options dj ?mt lbl) (next_ref w) c ''_meta''") auto
    note step = DocumentMeta_new_step [OF par c l ct]
    show ?thesis
    proof (cases err)
      case (Some e)
      with call step show ?thesis by simp
    next
      case None
      show ?thesis
      proof (cases "register_schema lib lbl (next_ref w) ((classes w)(next_ref w \<mapsto> c')) (registry w)")
        case (Inl e)
        with call step None show ?thesis by simp
      next
        case r: (Inr reg)
        show ?thesis
        proof (cases "get_schema lib lbl nm reg")
          case (Inl e)
          with call step None r show ?thesis by simp
        next
          case g: (Inr res')
          from call step None r g have "res' = res"
            and "w' = w\<lparr>classes := (classes w)(next_ref w \<mapsto> c'), next_ref := Suc (next_ref w),
                  registry := reg,
                  events := events w @ [RegisterSchema lbl (next_ref w), GetSchema lbl nm]\<rparr>"
            by simp_all
          with c l ct None r g show ?thesis by blast
        qed
      qed
    qed
  qed
qed

lemmas world_defs = example_world_registered_def example_world_def example_couchdbkit_def
  example_attrs_def example_Meta_private_def

lemma ex_par: "filter (isinstance_DocumentMeta (classes example_world_registered)) [1] \<noteq> []"
  by (simp add: isinstance_DocumentMeta_def world_defs example_class_def)

lemma ex_super: "super_new example_couchdbkit ''Salute'' [1] example_attrs (classes example_world_registered) =
  Inr \<lparr>cls_name = ''Salute'', cls_module = ''shop.models'', cls_bases = [1], cls_mro = [1, 0],
       cls_DocumentMeta = True, cls_Meta = Some (Some example_Meta_private), cls_meta = None,
       cls_db = None\<rparr>"
  by (simp add: world_defs example_class_def)

lemma ex_select: "select_meta example_attrs cs r = Some example_Meta_private"
  by (simp add: select_meta_def example_attrs_def)

lemma ex_split: "split_dot ''shop.models'' = [''shop'', ''models'']"
  by simp

lemma ex_label: "resolve_app_label (sys_modules example_world_registered) (Some example_Meta_private)
   ''shop.models'' = Inr (PStr ''shop'')"
  by (simp add: resolve_app_label_def getattr_app_label_def meta_getattr_def example_Meta_private_def
      example_world_registered_def example_world_def)


lemma app_label_after_contribute:
  assumes ct: "contribute_to_class dj (Options dj mt lbl) ref c nm = (err, opts, c')"
  shows "app_label opts =
     (case mt of
        None \<Rightarrow> lbl
      | Some m \<Rightarrow> (case meta_getattr m ''app_label'' of None \<Rightarrow> lbl | Some v \<Rightarrow> v))"
proof (cases mt)
  case None
  have "meta (Options dj mt lbl) = Some None" unfolding None by (simp add: Options_def)
  from ct [unfolded contribute_to_class_None [OF this]] show ?thesis
    unfolding None by (auto simp: Let_def Options_def)
next
  case (Some m)
  have ms: "meta (Options dj mt lbl) = Some (Some m)" unfolding Some by (simp add: Options_def)
  note res = contribute_to_class_Meta_result [OF ms ct]
  have k: "''app_label'' \<in> set DEFAULT_NAMES" by (simp add: DEFAULT_NAMES_def)
  have "options_getattr opts ''app_label'' =
      (case meta_getattr m ''app_label'' of
         Some v \<Rightarrow> Some v
       | None \<Rightarrow> options_getattr
           ((Options dj mt lbl)\<lparr>pk := Some (PKField dj),
              installed := Some (re_sub_models (cls_module c) \<in> set (INSTALLED_APPS dj)),
              object_name := PStr (cls_name c),
              module_name' := PStr (lower (cls_name c)),
              verbose_name := get_verbose_name dj (cls_name c),
              model := Some ref, concrete_model := Some ref\<rparr>) ''app_label'')"
    unfolding res(2) options_getattr_frame options_getattr_defaults [OF k] by (rule refl)
  then show ?thesis
    unfolding Some by (simp add: options_getattr_def Options_def split: option.splits)
qed

text \<open>
  Claim C1. When \<^verbatim>\<open>DocumentMeta.__new__\<close> returns for a class with at least one base
  that is an instance of \<^verbatim>\<open>DocumentMeta\<close>, it has built \<^verbatim>\<open>Options(meta, app_label)\<close>
  with the resolved label, attached it to the new class as \<^verbatim>\<open>_meta\<close> through
  \<^verbatim>\<open>contribute_to_class\<close> (the label stays the resolved one unless \<^verbatim>\<open>Meta\<close> binds
  \<^verbatim>\<open>app_label\<close> to \<^verbatim>\<open>None\<close>), and called \<^verbatim>\<open>register_schema(app_label, new_class)\<close>
  exactly once, followed by one \<^verbatim>\<open>get_schema\<close>. When no base is an instance of
  \<^verbatim>\<open>DocumentMeta\<close>, the class is the one the parent metaclass built, as it built it:
  nothing is attached and the registry is not called.
\<close>

theorem DocumentMeta_new_bookkeeping:
  assumes call: "DocumentMeta_new dj lib nm bases att w = Inr (res, w')"
  shows "(if filter (isinstance_DocumentMeta (classes w)) bases \<noteq> [] then
            \<exists>c mt lbl opts c'.
              super_new lib nm bases att (classes w) = Inr c \<and>
              mt = select_meta att ((classes w)(next_ref w \<mapsto> c)) (next_ref w) \<and>
              resolve_app_label (sys_modules w) mt (cls_module c) = Inr lbl \<and>
              app_label (Options dj mt lbl) = lbl \<and>
              contribute_to_class dj (Options dj mt lbl) (next_ref w) c ''_meta'' = (None, opts, c') \<and>
              classes w' (next_ref w) = Some c' \<and> cls_meta c' = Some opts \<and>
              ((\<forall>m. mt = Some m \<longrightarrow> meta_getattr m ''app_label'' \<noteq> Some PNone) \<longrightarrow>
                 app_label opts = lbl) \<and>
              register_schema lib lbl (next_ref w) (classes w') (registry w) = Inr (registry w') \<and>
              events w' = events w @ [RegisterSchema lbl (next_ref w), GetSchema lbl nm]
          else
            \<exists>c. super_new lib nm bases att (classes w) = Inr c \<and>
              res = Some (next_ref w) \<and> classes w' (next_ref w) = Some c \<and>
              registry w' = registry w \<and> events w' = events w)"
proof (cases "filter (isinstance_DocumentMeta (classes w)) bases = []")
  case True
  from DocumentMeta_new_no_parents [OF call True] obtain c where
    "super_new lib nm bases att (classes w) = Inr c" "res = Some (next_ref w)"
    "w' = w\<lparr>classes := (classes w)(next_ref w \<mapsto> c), next_ref := Suc (next_ref w)\<rparr>"
    by blast
  then have "super_new lib nm bases att (classes w) = Inr c \<and>
              res = Some (next_ref w) \<and> classes w' (next_ref w) = Some c \<and>
              registry w' = registry w \<and> events w' = events w"
    by simp
  then show ?thesis using True by auto
next
  case False
  from DocumentMeta_new_parents [OF call False] obtain c lbl opts c' reg where
    c: "super_new lib nm bases att (classes w) = Inr c"
    and l: "resolve_app_label (sys_modules w)
             (select_meta att ((classes w)(next_ref w \<mapsto> c)) (next_ref w)) (cls_module c) = Inr lbl"
    and ct: "contribute_to_class dj
             (Options dj (select_meta att ((classes w)(next_ref w \<mapsto> c)) (next_ref w)) lbl)
             (next_ref w) c ''_meta'' = (None, opts, c')"
    and r: "register_schema lib lbl (next_ref w) ((classes w)(next_ref w \<mapsto> c')) (registry w) = Inr reg"
    and w': "w' = w\<lparr>classes := (classes w)(next_ref w \<mapsto> c'), next_ref := Suc (next_ref w),
                  registry := reg,
                  events := events w @ [RegisterSchema lbl (next_ref w), GetSchema lbl nm]\<rparr>"
    by blast
  let ?mt = "select_meta att ((classes w)(next_ref w \<mapsto> c)) (next_ref w)"
  have built: "app_label (Options dj ?mt lbl) = lbl" by (simp add: Options_def)
  have pk: "cls_meta c' = Some opts" using contribute_to_class_pk [OF ct] by simp
  have stored: "classes w' (next_ref w) = Some c'" unfolding w' by simp
  have reg: "register_schema lib lbl (next_ref w) (classes w') (registry w) = Inr (registry w')"
    unfolding w' using r by simp
  have ev: "events w' = events w @ [RegisterSchema lbl (next_ref w), GetSchema lbl nm]"
    unfolding w' by simp
  have keep: "(\<forall>m. ?mt = Some m \<longrightarrow> meta_getattr m ''app_label'' \<noteq> Some PNone) \<longrightarrow>
                 app_label opts = lbl"
  proof
    assume nn: "\<forall>m. ?mt = Some m \<longrightarrow> meta_getattr m ''app_label'' \<noteq> Some PNone"
    show "app_label opts = lbl"
    proof (cases ?mt)
      case None
      with app_label_after_contribute [OF ct] show ?thesis by simp
    next
      case (Some m)
      show ?thesis
      proof (cases "meta_getattr m ''app_label''")
        case None
        with app_label_after_contribute [OF ct] Some show ?thesis by simp
      next
        case v: (Some v)
        with nn Some have "v \<noteq> PNone" by auto
        with l Some v have "lbl = v"
          by (simp add: resolve_app_label_def getattr_app_label_def)
        with app_label_after_contribute [OF ct] Some v show ?thesis by simp
      qed
    qed
  qed
  from c l built ct stored pk keep reg ev False show ?thesis by auto
qed

lemma ex_lower: "lower ''Salute'' = ''salute''"
  by code_simp

lemma ex_call:
  "\<exists>w'. DocumentMeta_new example_django example_couchdbkit ''Salute'' [1] example_attrs
      example_world_registered = Inr (Some 2, w')"
proof -
  define c where "c = \<lparr>cls_name = ''Salute'', cls_module = ''shop.models'', cls_bases = [1],
       cls_mro = [1, 0], cls_DocumentMeta = True, cls_Meta = Some (Some example_Meta_private),
       cls_meta = None, cls_db = None\<rparr>"
  define w where "w = example_world_registered"
  define n where "n = next_ref w"
  have sup: "super_new example_couchdbkit ''Salute'' [1] example_attrs (classes w) = Inr c"
    unfolding c_def w_def by (rule ex_super)
  have par: "filter (isinstance_DocumentMeta (classes w)) [1] \<noteq> []"
    unfolding w_def by (rule ex_par)
  have cm: "cls_module c = ''shop.models''" and cn: "cls_name c = ''Salute''"
    by (simp_all add: c_def)
  have l: "resolve_app_label (sys_modules w)
             (select_meta example_attrs ((classes w)(next_ref w \<mapsto> c)) (next_ref w))
             (cls_module c) = Inr (PStr ''shop'')"
    unfolding ex_select cm w_def by (rule ex_label)
  define r where "r = contribute_to_class example_django
             (Options example_django
                (select_meta example_attrs ((classes w)(next_ref w \<mapsto> c)) (next_ref w))
                (PStr ''shop''))
             (next_ref w) c ''_meta''"
  have ct: "contribute_to_class example_django
             (Options example_django
                (select_meta example_attrs ((classes w)(next_ref w \<mapsto> c)) (next_ref w))
                (PStr ''shop''))
             (next_ref w) c ''_meta'' = (fst r, fst (snd r), snd (snd r))"
    unfolding r_def by simp
  have ms: "meta (Options example_django (Some example_Meta_private) (PStr ''shop'')) =
      Some (Some example_Meta_private)"
    by (simp add: Options_def)
  note res = contribute_to_class_Meta_result [OF ms ct [unfolded ex_select]]
  have err: "fst r = None"
    unfolding res(1)
    by (simp add: example_Meta_private_def dict_keys_def startswith_underscore_def)
  have nm: "cls_name (snd (snd r)) = ''Salute''"
    by (subst res(3)) (simp add: cn)
  note step = DocumentMeta_new_step [OF par sup l ct]
  have regw: "registry w = []" and nr: "next_ref w = 2"
    by (simp_all add: w_def example_world_registered_def example_world_def)
  have reg: "register_schema example_couchdbkit (PStr ''shop'') (next_ref w)
      ((classes w)(next_ref w \<mapsto> snd (snd r))) (registry w) =
      Inr [(PStr ''shop'', ''salute'', next_ref w)]"
    unfolding regw by (simp add: example_couchdbkit_def nm ex_lower)
  have get: "get_schema example_couchdbkit (PStr ''shop'') ''Salute''
      [(PStr ''shop'', ''salute'', next_ref w)] = Inr (Some 2)"
    by (simp add: example_couchdbkit_def ex_lower nr)
  show ?thesis
    unfolding w_def [symmetric] step err reg by (simp add: get)
qed


theorem DocumentMeta_new_bookkeeping_witness:
  "(case DocumentMeta_new example_django example_couchdbkit ''Salute'' [1] example_attrs
          example_world_registered of
      Inl e \<Rightarrow> False
    | Inr rw \<Rightarrow> fst rw = Some 2 \<and>
        events (snd rw) = [RegisterSchema (PStr ''shop'') 2, GetSchema (PStr ''shop'') ''Salute''])"
proof -
  from ex_call obtain w' where
    call: "DocumentMeta_new example_django example_couchdbkit ''Salute'' [1] example_attrs
      example_world_registered = Inr (Some 2, w')"
    by blast
  from DocumentMeta_new_bookkeeping [OF call] ex_par obtain c mt lbl where
    c: "super_new example_couchdbkit ''Salute'' [1] example_attrs (classes example_world_registered) =
        Inr c"
    and mt: "mt = select_meta example_attrs
        ((classes example_world_registered)(next_ref example_world_registered \<mapsto> c))
        (next_ref example_world_registered)"
    and l: "resolve_app_label (sys_modules example_world_registered) mt (cls_module c) = Inr lbl"
    and ev: "events w' = events example_world_registered @
        [RegisterSchema lbl (next_ref example_world_registered), GetSchema lbl ''Salute'']"
    by auto
  have cm: "cls_module c = ''shop.models''"
    using c unfolding ex_super by auto
  have "lbl = PStr ''shop''"
    using l unfolding mt ex_select cm ex_label by simp
  moreover have "events example_world_registered = []" "next_ref example_world_registered = 2"
    by (simp_all add: example_world_registered_def example_world_def)
  ultimately have "events w' = [RegisterSchema (PStr ''shop'') 2, GetSchema (PStr ''shop'') ''Salute'']"
    using ev by simp
  then show ?thesis unfolding call by simp
qed




lemma ex_call_reloaded:
  "\<exists>w'. DocumentMeta_new example_django example_couchdbkit ''Salute'' [1] example_attrs
      example_world_reloaded = Inr (Some 1, w')"
proof -
  define c where "c = \<lparr>cls_name = ''Salute'', cls_module = ''shop.models'', cls_bases = [1],
       cls_mro = [1, 0], cls_DocumentMeta = True, cls_Meta = Some (Some example_Meta_private),
       cls_meta = None, cls_db = None\<rparr>"
  define w where "w = example_world_reloaded"
  have cls: "classes w = classes example_world_registered"
    and mods: "sys_modules w = sys_modules example_world_registered"
    by (simp_all add: w_def example_world_reloaded_def)
  have sup: "super_new example_couchdbkit ''Salute'' [1] example_attrs (classes w) = Inr c"
    unfolding c_def cls by (rule ex_super)
  have par: "filter (isinstance_DocumentMeta (classes w)) [1] \<noteq> []"
    unfolding cls by (rule ex_par)
  have cm: "cls_module c = ''shop.models''" and cn: "cls_name c = ''Salute''"
    by (simp_all add: c_def)
  have l: "resolve_app_label (sys_modules w)
             (select_meta example_attrs ((classes w)(next_ref w \<mapsto> c)) (next_ref w))
             (cls_module c) = Inr (PStr ''shop'')"
    unfolding ex_select cm mods by (rule ex_label)
  define r where "r = contribute_to_class example_django
             (Options example_django
                (select_meta example_attrs ((classes w)(next_ref w \<mapsto> c)) (next_ref w))
                (PStr ''shop''))
             (next_ref w) c ''_meta''"
  have ct: "contribute_to_class example_django
             (Options example_django
                (select_meta example_attrs ((classes w)(next_ref w \<mapsto> c)) (next_ref w))
                (PStr ''shop''))
             (next_ref w) c ''_meta'' = (fst r, fst (snd r), snd (snd r))"
    unfolding r_def by simp
  have ms: "meta (Options example_django (Some example_Meta_private) (PStr ''shop'')) =
      Some (Some example_Meta_private)"
    by (simp add: Options_def)
  note res = contribute_to_class_Meta_result [OF ms ct [unfolded ex_select]]
  have err: "fst r = None"
    unfolding res(1)
    by (simp add: example_Meta_private_def dict_keys_def startswith_underscore_def)
  have nm: "cls_name (snd (snd r)) = ''Salute''"
    by (subst res(3)) (simp add: cn)
  note step = DocumentMeta_new_step [OF par sup l ct]
  have regw: "registry w = [(PStr ''shop'', ''salute'', 1)]"
    by (simp add: w_def example_world_reloaded_def)
  have reg: "register_schema example_couchdbkit (PStr ''shop'') (next_ref w)
      ((classes w)(next_ref w \<mapsto> snd (snd r))) (registry w) =
      Inr [(PStr ''shop'', ''salute'', 1)]"
    unfolding regw by (simp add: example_couchdbkit_def nm ex_lower)
  have get: "get_schema example_couchdbkit (PStr ''shop'') ''Salute''
      [(PStr ''shop'', ''salute'', Suc 0)] = Inr (Some (Suc 0))"
    by (simp add: example_couchdbkit_def ex_lower)
  show ?thesis
    unfolding w_def [symmetric] step err reg by (simp add: get)
qed

text \<open>
  Claim C9. For a class with a \<^verbatim>\<open>DocumentMeta\<close> base, the value that
  \<^verbatim>\<open>DocumentMeta.__new__\<close> returns is \<^verbatim>\<open>get_schema(app_label, name)\<close>, read from the
  registry after the registration, for the label the class was registered under. It need
  not be the class just built: with a registry that already holds a class under that
  label and name and keeps it, the earlier class is returned.
\<close>

theorem returns_registry_entry:
  assumes call: "DocumentMeta_new dj lib nm bases att w = Inr (res, w')"
    and par: "filter (isinstance_DocumentMeta (classes w)) bases \<noteq> []"
  shows "(\<exists>lbl. events w' = events w @ [RegisterSchema lbl (next_ref w), GetSchema lbl nm] \<and>
            get_schema lib lbl nm (registry w') = Inr res) \<and>
         \<not> (\<forall>(lib0 :: ((pyval \<times> string \<times> nat) list) couchdbkit) dj0 nm0 bases0 att0 w0 res0 w0'.
              DocumentMeta_new dj0 lib0 nm0 bases0 att0 w0 = Inr (res0, w0') \<longrightarrow>
              filter (isinstance_DocumentMeta (classes w0)) bases0 \<noteq> [] \<longrightarrow>
              res0 = Some (next_ref w0))"
proof
  from DocumentMeta_new_parents [OF call par] obtain lbl c' reg where
    g: "get_schema lib lbl nm reg = Inr res"
    and w': "w' = w\<lparr>classes := (classes w)(next_ref w \<mapsto> c'), next_ref := Suc (next_ref w),
            registry := reg,
            events := events w @ [RegisterSchema lbl (next_ref w), GetSchema lbl nm]\<rparr>"
    by blast
  have "events w' = events w @ [RegisterSchema lbl (next_ref w), GetSchema lbl nm] \<and>
            get_schema lib lbl nm (registry w') = Inr res"
    unfolding w' using g by simp
  then show "\<exists>lbl. events w' = events w @ [RegisterSchema lbl (next_ref w), GetSchema lbl nm] \<and>
            get_schema lib lbl nm (registry w') = Inr res"
    by blast
next
  from ex_call_reloaded obtain w0' where
    c0: "DocumentMeta_new example_django example_couchdbkit ''Salute'' [1] example_attrs
      example_world_reloaded = Inr (Some 1, w0')"
    by blast
  have p0: "filter (isinstance_DocumentMeta (classes example_world_reloaded)) [1] \<noteq> []"
    using ex_par by (simp add: example_world_reloaded_def)
  have n0: "next_ref example_world_reloaded = 2"
    by (simp add: example_world_reloaded_def example_world_registered_def)
  show "\<not> (\<forall>(lib0 :: ((pyval \<times> string \<times> nat) list) couchdbkit) dj0 nm0 bases0 att0 w0 res0 w0'.
              DocumentMeta_new dj0 lib0 nm0 bases0 att0 w0 = Inr (res0, w0') \<longrightarrow>
              filter (isinstance_DocumentMeta (classes w0)) bases0 \<noteq> [] \<longrightarrow>
              res0 = Some (next_ref w0))"
  proof
    assume "\<forall>(lib0 :: ((pyval \<times> string \<times> nat) list) couchdbkit) dj0 nm0 bases0 att0 w0 res0 w0'.
              DocumentMeta_new dj0 lib0 nm0 bases0 att0 w0 = Inr (res0, w0') \<longrightarrow>
              filter (isinstance_DocumentMeta (classes w0)) bases0 \<noteq> [] \<longrightarrow>
              res0 = Some (next_ref w0)"
    with c0 p0 have "Some (1::nat) = Some (next_ref example_world_reloaded)" by blast
    then show False unfolding n0 by simp
  qed
qed


theorem returns_registry_entry_witness:
  "(case DocumentMeta_new example_django example_couchdbkit ''Salute'' [1] example_attrs
          example_world_reloaded of
      Inl e \<Rightarrow> False
    | Inr rw \<Rightarrow>
        fst rw = Some 1 \<and> next_ref example_world_reloaded = 2 \<and>
        (\<exists>lbl. get_schema example_couchdbkit lbl ''Salute'' (registry (snd rw)) = Inr (fst rw)))"
proof -
  from ex_call_reloaded obtain w0' where
    c0: "DocumentMeta_new example_django example_couchdbkit ''Salute'' [1] example_attrs
      example_world_reloaded = Inr (Some 1, w0')"
    by blast
  have p0: "filter (isinstance_DocumentMeta (classes example_world_reloaded)) [1] \<noteq> []"
    using ex_par by (simp add: example_world_reloaded_def)
  have n0: "next_ref example_world_reloaded = 2"
    by (simp add: example_world_reloaded_def example_world_registered_def)
  from returns_registry_entry [OF c0 p0]
  have "\<exists>lbl. get_schema example_couchdbkit lbl ''Salute'' (registry w0') = Inr (Some 1)"
    by blast
  with n0 show ?thesis unfolding c0 by simp
qed

section \<open>The Document base class\<close>

text \<open>
  The class statement of \<^verbatim>\<open>Document\<close> itself, run with a parent metaclass that
  builds classes as \<^verbatim>\<open>type.__new__\<close> does: the class is created by
  \<^verbatim>\<open>DocumentMeta\<close> with \<^verbatim>\<open>schema.Document\<close> as its base, but it has no
  \<^verbatim>\<open>_meta\<close> and the registry has not been called.
\<close>

lemma contribute_to_class_cls:
  assumes "contribute_to_class dj self ref cls nm = (err, self', cls')"
  shows "cls' = cls\<lparr>cls_meta := Some self'\<rparr>"
proof (cases "meta self")
  case None
  with assms show ?thesis by (auto simp: contribute_to_class_def Let_def)
next
  case (Some mo)
  show ?thesis
  proof (cases mo)
    case None
    with Some assms show ?thesis by (auto simp: contribute_to_class_None Let_def)
  next
    case (Some m)
    with \<open>meta self = Some mo\<close> have "meta self = Some (Some m)" by simp
    from contribute_to_class_Meta_result(3) [OF this assms] show ?thesis .
  qed
qed

theorem Document_without_meta_counterexample:
  "(case Document example_django example_couchdbkit 0 example_world of
      Inl e \<Rightarrow> False
    | Inr rw \<Rightarrow>
        fst rw = Some 1 \<and>
        (case classes (snd rw) 1 of
           None \<Rightarrow> False
         | Some c \<Rightarrow> cls_name c = ''Document'' \<and> cls_bases c = [0] \<and> cls_DocumentMeta c \<and>
                     cls_meta c = None) \<and>
        class_getattr cls_meta (classes (snd rw)) 1 = None \<and>
        events (snd rw) = [] \<and> registry (snd rw) = [])"
  by (simp add: Document_def DocumentMeta_new_def isinstance_DocumentMeta_def example_world_def
      example_couchdbkit_def Document_attrs_def class_getattr_def Let_def)

text \<open>
  Claim C8, amended. \<^verbatim>\<open>Document\<close> is created by \<^verbatim>\<open>DocumentMeta\<close> with
  \<^verbatim>\<open>schema.Document\<close> as its only base; that base is not an instance of
  \<^verbatim>\<open>DocumentMeta\<close>, so \<^verbatim>\<open>Document\<close> itself is exactly the class the parent metaclass
  built, with nothing attached and no call to the registry. It is an instance of
  \<^verbatim>\<open>DocumentMeta\<close>, and every class created by \<^verbatim>\<open>DocumentMeta\<close> with such an
  instance among its bases (every subclass of \<^verbatim>\<open>Document\<close>) gets \<^verbatim>\<open>_meta\<close> and is
  registered once. The parent metaclass is taken to return an instance of the metaclass
  with the bases it was given.
\<close>

theorem Document_and_subclasses:
  assumes doc: "Document dj lib schema_Document w = Inr (res, w1)"
    and notinst: "\<not> isinstance_DocumentMeta (classes w) schema_Document"
    and ty: "\<forall>nm bases att cs c. super_new lib nm bases att cs = Inr c \<longrightarrow>
               cls_bases c = bases \<and> cls_DocumentMeta c"
  shows "(\<exists>d c. res = Some d \<and> classes w1 d = Some c \<and>
            super_new lib ''Document'' [schema_Document] Document_attrs (classes w) = Inr c \<and>
            cls_bases c = [schema_Document] \<and> isinstance_DocumentMeta (classes w1) d \<and>
            events w1 = events w \<and> registry w1 = registry w) \<and>
         (\<forall>nm bases att w2 res2 w3.
            (\<exists>b\<in>set bases. isinstance_DocumentMeta (classes w2) b) \<longrightarrow>
            DocumentMeta_new dj lib nm bases att w2 = Inr (res2, w3) \<longrightarrow>
            (\<exists>c2 opts lbl. classes w3 (next_ref w2) = Some c2 \<and> cls_meta c2 = Some opts \<and>
               cls_bases c2 = bases \<and> isinstance_DocumentMeta (classes w3) (next_ref w2) \<and>
               events w3 = events w2 @ [RegisterSchema lbl (next_ref w2), GetSchema lbl nm]))"
proof
  have par: "filter (isinstance_DocumentMeta (classes w)) [schema_Document] = []"
    using notinst by simp
  from DocumentMeta_new_no_parents [OF doc [unfolded Document_def] par] obtain c where
    c: "super_new lib ''Document'' [schema_Document] Document_attrs (classes w) = Inr c"
    and r: "res = Some (next_ref w)"
    and w1: "w1 = w\<lparr>classes := (classes w)(next_ref w \<mapsto> c), next_ref := Suc (next_ref w)\<rparr>"
    by blast
  from ty c have b: "cls_bases c = [schema_Document]" and i: "cls_DocumentMeta c" by blast+
  have st: "classes w1 (next_ref w) = Some c" unfolding w1 by simp
  have inst: "isinstance_DocumentMeta (classes w1) (next_ref w)"
    unfolding isinstance_DocumentMeta_def st using i by simp
  have "events w1 = events w" "registry w1 = registry w" unfolding w1 by simp_all
  with r st c b inst show "\<exists>d c. res = Some d \<and> classes w1 d = Some c \<and>
            super_new lib ''Document'' [schema_Document] Document_attrs (classes w) = Inr c \<and>
            cls_bases c = [schema_Document] \<and> isinstance_DocumentMeta (classes w1) d \<and>
            events w1 = events w \<and> registry w1 = registry w"
    by blast
next
  show "\<forall>nm bases att w2 res2 w3.
            (\<exists>b\<in>set bases. isinstance_DocumentMeta (classes w2) b) \<longrightarrow>
            DocumentMeta_new dj lib nm bases att w2 = Inr (res2, w3) \<longrightarrow>
            (\<exists>c2 opts lbl. classes w3 (next_ref w2) = Some c2 \<and> cls_meta c2 = Some opts \<and>
               cls_bases c2 = bases \<and> isinstance_DocumentMeta (classes w3) (next_ref w2) \<and>
               events w3 = events w2 @ [RegisterSchema lbl (next_ref w2), GetSchema lbl nm])"
  proof (intro allI impI)
    fix nm bases att and w2 :: "'a world" and res2 and w3 :: "'a world"
    assume ex: "\<exists>b\<in>set bases. isinstance_DocumentMeta (classes w2) b"
      and call: "DocumentMeta_new dj lib nm bases att w2 = Inr (res2, w3)"
    from ex have par: "filter (isinstance_DocumentMeta (classes w2)) bases \<noteq> []"
      by (auto simp: filter_empty_conv)
    from DocumentMeta_new_parents [OF call par] obtain c lbl opts c' reg where
      c: "super_new lib nm bases att (classes w2) = Inr c"
      and ct: "contribute_to_class dj
             (Options dj (select_meta att ((classes w2)(next_ref w2 \<mapsto> c)) (next_ref w2)) lbl)
             (next_ref w2) c ''_meta'' = (None, opts, c')"
      and w3: "w3 = w2\<lparr>classes := (classes w2)(next_ref w2 \<mapsto> c'), next_ref := Suc (next_ref w2),
                  registry := reg,
                  events := events w2 @ [RegisterSchema lbl (next_ref w2), GetSchema lbl nm]\<rparr>"
      by blast
    from ty c have b: "cls_bases c = bases" and i: "cls_DocumentMeta c" by blast+
    have c': "c' = c\<lparr>cls_meta := Some opts\<rparr>" by (rule contribute_to_class_cls [OF ct])
    have st: "classes w3 (next_ref w2) = Some c'" unfolding w3 by simp
    have "cls_meta c' = Some opts" "cls_bases c' = bases" "cls_DocumentMeta c'"
      unfolding c' using b i by simp_all
    moreover from this st have "isinstance_DocumentMeta (classes w3) (next_ref w2)"
      by (simp add: isinstance_DocumentMeta_def)
    moreover have "events w3 = events w2 @ [RegisterSchema lbl (next_ref w2), GetSchema lbl nm]"
      unfolding w3 by simp
    ultimately show "\<exists>c2 opts lbl. classes w3 (next_ref w2) = Some c2 \<and> cls_meta c2 = Some opts \<and>
               cls_bases c2 = bases \<and> isinstance_DocumentMeta (classes w3) (next_ref w2) \<and>
               events w3 = events w2 @ [RegisterSchema lbl (next_ref w2), GetSchema lbl nm]"
      using st by blast
  qed
qed


theorem Document_and_subclasses_witness:
  "(case Document example_django example_couchdbkit 0 example_world of
      Inl e \<Rightarrow> False
    | Inr rw \<Rightarrow> fst rw = Some 1 \<and> events (snd rw) = [] \<and>
        isinstance_DocumentMeta (classes (snd rw)) 1) \<and>
   (case DocumentMeta_new example_django example_couchdbkit ''Salute'' [1] example_attrs
          example_world_registered of
      Inl e \<Rightarrow> False
    | Inr rw \<Rightarrow> (\<exists>c2 opts. classes (snd rw) 2 = Some c2 \<and> cls_meta c2 = Some opts \<and>
                     cls_bases c2 = [1]))"
proof -
  have "\<exists>w1. Document example_django example_couchdbkit 0 example_world = Inr (Some 1, w1)"
    by (simp add: Document_def DocumentMeta_new_def isinstance_DocumentMeta_def example_world_def
        example_couchdbkit_def Let_def)
  then obtain w1 where
    doc: "Document example_django example_couchdbkit 0 example_world = Inr (Some 1, w1)"
    by blast
  have notinst: "\<not> isinstance_DocumentMeta (classes example_world) 0"
    by (simp add: isinstance_DocumentMeta_def example_world_def)
  have ty: "\<forall>nm bases att cs c. super_new example_couchdbkit nm bases att cs = Inr c \<longrightarrow>
               cls_bases c = bases \<and> cls_DocumentMeta c"
    by (auto simp: example_couchdbkit_def)
  note th = Document_and_subclasses [OF doc notinst ty]
  have e0: "events example_world = []" by (simp add: example_world_def)
  from th have a: "events w1 = [] \<and> isinstance_DocumentMeta (classes w1) 1"
    unfolding e0 by auto
  from ex_call obtain w3 where
    call: "DocumentMeta_new example_django example_couchdbkit ''Salute'' [1] example_attrs
      example_world_registered = Inr (Some 2, w3)"
    by blast
  have ex: "\<exists>b\<in>set [1]. isinstance_DocumentMeta (classes example_world_registered) b"
    using ex_par by (simp split: if_splits)
  have nr: "next_ref example_world_registered = 2"
    by (simp add: example_world_registered_def)
  from th ex call have "\<exists>c2 opts lbl. classes w3 (next_ref example_world_registered) = Some c2 \<and>
      cls_meta c2 = Some opts \<and> cls_bases c2 = [1] \<and>
      isinstance_DocumentMeta (classes w3) (next_ref example_world_registered) \<and>
      events w3 = events example_world_registered @
        [RegisterSchema lbl (next_ref example_world_registered), GetSchema lbl ''Salute'']"
    by blast
  then have b: "\<exists>c2 opts. classes w3 2 = Some c2 \<and> cls_meta c2 = Some opts \<and> cls_bases c2 = [1]"
    unfolding nr by blast
  from a b show ?thesis unfolding doc call by simp
qed

end
